theory Spec2Isabelle
  imports Main
begin

section \<open>The field tree\<close>

text \<open>
  The walker \<^verbatim>\<open>traverseFields\<close> of
  \<^verbatim>\<open>packages/drizzle/src/postgres/schema/traverseFields.ts\<close> compiles a list of
  field descriptors into columns, indexes, relation descriptors and child tables.
  A field is a JavaScript object; the model keeps the properties the walker reads.
  A property the walker tests for truthiness is a \<open>bool\<close>, an optional string is a
  \<open>string option\<close>.
\<close>

datatype fieldType =
    TArray | TBlocks | TCheckbox | TCode | TCollapsible | TDate | TEmail | TGroup
  | TJoin | TJson | TNumber | TPoint | TRadio | TRelationship | TRichText | TRow
  | TSelect | TTab | TTabs | TText | TTextarea | TUI | TUpload

text \<open>\<^verbatim>\<open>relationTo\<close> is a collection slug or an array of slugs.\<close>

datatype relTo = Single string | Multi "string list"

text \<open>A select option is a plain string or an object with a \<^verbatim>\<open>value\<close>.\<close>

datatype selOption = OptString string | OptObject (optLabel: string) (optValue: string)

datatype field = MkField
  (ftype: fieldType)
  (name: "string option")
  (localized: bool)
  (hasMany: bool)
  (unique: bool)
  (index: bool)
  (required: bool)
  (condition: bool)
  (virtual: bool)
  (relationTo: relTo)
  (options: "selOption list")
  (fieldsOf: "field list")
  (blocks: "block list")
  (tabs: "field list")
and block = MkBlock
  (slug: string)
  (blockFields: "field list")

text \<open>
  \<open>fieldsOf f\<close> is \<^verbatim>\<open>field.fields\<close>;
  \<open>condition f\<close> stands for \<^verbatim>\<open>field.admin?.condition\<close> being truthy.
  A field without the property \<^verbatim>\<open>relationTo\<close> carries \<open>Single []\<close>: the walker only
  asks whether the property is an array, outside the relationship and upload cases.
\<close>

section \<open>Columns, indexes, relation descriptors, tables\<close>

datatype IDType = IDinteger | IDnumeric | IDuuid | IDvarchar

datatype colKind =
    PgInteger | PgNumeric | PgUUID | PgVarchar | PgBoolean | PgTimestamp
  | PgJsonb | PgText | PgGeometry | PgEnumColumn string

text \<open>
  A column builder: its constructor, its SQL name, the \<^verbatim>\<open>notNull()\<close> mark and the
  target of \<^verbatim>\<open>references(() => adapter.tables[tableName].id, { onDelete: 'set null' })\<close>.
  The referenced table is looked up lazily, so the model stores the key, which is
  \<open>None\<close> when \<^verbatim>\<open>tableNameMap.get\<close> returned \<^verbatim>\<open>undefined\<close>.
\<close>

record column =
  colKind :: colKind
  colName :: string
  colNotNull :: bool
  colReferences :: "string option option"

definition mkColumn :: "colKind \<Rightarrow> string \<Rightarrow> column" where
  "mkColumn k n = \<lparr>colKind = k, colName = n, colNotNull = False, colReferences = None\<rparr>"

definition notNull :: "column \<Rightarrow> column" where
  "notNull c = c\<lparr>colNotNull := True\<rparr>"

definition references :: "string option \<Rightarrow> column \<Rightarrow> column" where
  "references t c = c\<lparr>colReferences := Some t\<rparr>"

text \<open>
  Modelled from the spec: the table \<^verbatim>\<open>parentIDColumnMap\<close> (parentIDColumnMap.ts) is not
  among the sources. The spec types a foreign key "to match that table's declared id
  type (integer/uuid/numeric/varchar)": each id type maps to the column constructor of
  the same name.
\<close>

definition parentIDColumnMap :: "IDType \<Rightarrow> string \<Rightarrow> column" where
  "parentIDColumnMap t n =
     mkColumn (case t of IDinteger \<Rightarrow> PgInteger | IDnumeric \<Rightarrow> PgNumeric
                       | IDuuid \<Rightarrow> PgUUID | IDvarchar \<Rightarrow> PgVarchar) n"

text \<open>
  The value \<^verbatim>\<open>createIndex({ name, indexName, unique })\<close> stored in an index set is a
  closure over its three arguments; the model stores the arguments.
\<close>

record indexDef =
  idxOn :: "string list"
  idxName :: string
  idxUnique :: bool

datatype cardinality = One | Many

record relation =
  relType :: cardinality
  relLocalized :: bool
  relTarget :: "string option"

type_synonym RelationMap = "string \<rightharpoonup> relation"

text \<open>Entries of \<^verbatim>\<open>baseExtraConfig\<close>: an index or a cascading foreign key.\<close>

datatype extraConfig =
    ExIndex string "string list"
  | ExForeignKey string "string list" string

record table =
  tblColumns :: "string \<rightharpoonup> column"
  tblIndexes :: "string \<rightharpoonup> indexDef"
  tblExtra :: "(string \<times> extraConfig) list"

record pgEnum =
  enumName :: string
  enumValues :: "string list"

text \<open>
  A value of \<^verbatim>\<open>adapter.relations\<close>: the table the declaration is for, the parent it
  points to with the relation name, whether a \<^verbatim>\<open>_locales\<close> relation is added, and the
  relation descriptors of the child table.
\<close>

record relationsDecl =
  rdTable :: "table option"
  rdParentKey :: string
  rdParentTable :: string
  rdRelationName :: string
  rdLocales :: bool
  rdSub :: RelationMap

text \<open>The part of the adapter the walker writes to.\<close>

record adapter =
  tables :: "string \<rightharpoonup> table"
  enums :: "string \<rightharpoonup> pgEnum"
  relations :: "string \<rightharpoonup> relationsDecl"
  fieldConstraints :: "string \<rightharpoonup> (string \<rightharpoonup> string)"
  postgis :: bool

text \<open>
  What is thrown: \<^verbatim>\<open>InvalidConfiguration\<close> with its message, and the TypeError of
  JavaScript when a property of \<^verbatim>\<open>undefined\<close> is read or \<^verbatim>\<open>undefined\<close> is called.
  \<open>NestingLimit\<close> is not an error of the program: the bounded Table Builder of the
  last but one section returns it when its bound is used up.
\<close>

datatype error = InvalidConfiguration string | TypeError string | NestingLimit

section \<open>Arguments and result of the walker\<close>

datatype manyFlag = MFalse | MTrue | MIndex

record result =
  hasLocalizedField :: bool
  hasLocalizedManyNumberField :: bool
  hasLocalizedManyTextField :: bool
  hasLocalizedRelationshipField :: bool
  hasManyNumberField :: manyFlag
  hasManyTextField :: manyFlag

definition initResult :: result where
  "initResult = \<lparr>hasLocalizedField = False, hasLocalizedManyNumberField = False,
     hasLocalizedManyTextField = False, hasLocalizedRelationshipField = False,
     hasManyNumberField = MFalse, hasManyTextField = MFalse\<rparr>"

definition truthy :: "manyFlag \<Rightarrow> bool" where
  "truthy m = (m \<noteq> MFalse)"

text \<open>
  The arguments that are values. \<^verbatim>\<open>relationsToBuild\<close> and \<^verbatim>\<open>rootRelationsToBuild\<close>
  are references to Map objects which the caller may pass twice, so they are
  addresses into a store of relation maps; \<^verbatim>\<open>rootRelationsToBuild\<close> is optional.
\<close>

record args =
  columnPrefix :: "string option"
  disableNotNull :: bool
  disableRelsTableUnique :: bool
  disableUnique :: bool
  fieldPrefix :: "string option"
  forceLocalized :: bool
  newTableName :: string
  parentTableName :: string
  relationsToBuild :: nat
  rootRelationsToBuild :: "nat option"
  rootTableIDColType :: IDType
  rootTableName :: string
  versions :: bool
  withinLocalizedArrayOrBlock :: bool

text \<open>
  The objects the walker mutates: the adapter, the four Records of the table being
  built, the two Sets of relationship targets and the store of relation maps.
\<close>

record state =
  adapter :: adapter
  columns :: "string \<rightharpoonup> column"
  indexes :: "string \<rightharpoonup> indexDef"
  localesColumns :: "string \<rightharpoonup> column"
  localesIndexes :: "string \<rightharpoonup> indexDef"
  relationships :: "string set"
  uniqueRelationships :: "string set"
  relMaps :: "nat \<Rightarrow> RelationMap"

section \<open>Collaborators\<close>

text \<open>
  The walker calls helpers of the repository that are not among the sources. They are
  parameters of the model, collected in one record, so every theorem holds for whatever
  they compute. \<^verbatim>\<open>createTableName\<close> may throw (it is called with
  \<^verbatim>\<open>throwValidationError\<close>), \<^verbatim>\<open>validateExistingBlockIsIdentical\<close> returns or throws,
  \<^verbatim>\<open>buildTable\<close> receives the adapter and the root-scoped registries, and hands them
  back updated together with the flags and the relation map of the child table.
  Following the spec, the naming helpers are pure. The record also holds what the walker
  only reads: \<^verbatim>\<open>adapter.payload.config.localization\<close>,
  \<^verbatim>\<open>adapter.payload.collections[slug].config.fields\<close>, \<^verbatim>\<open>adapter.tableNameMap\<close>,
  \<^verbatim>\<open>adapter.idType\<close>, \<^verbatim>\<open>adapter.localesSuffix\<close> and whether
  \<^verbatim>\<open>process.env.NODE_ENV\<close> is \<^verbatim>\<open>'production'\<close>.
\<close>

datatype config = CField field | CBlock block

record createTableNameArgs =
  ctnConfig :: config
  ctnParentTableName :: string
  ctnPrefix :: string
  ctnTarget :: "string option"
  ctnThrowValidationError :: bool
  ctnVersionsCustomName :: bool

record buildTableArgs =
  baseColumns :: "(string \<times> column) list"
  baseExtraConfig :: "(string \<times> extraConfig) list"
  btDisableNotNull :: bool
  btDisableRelsTableUnique :: "bool option"
  btDisableUnique :: bool
  btFields :: "field list"
  btRootTableIDColType :: "IDType option"
  btRootTableName :: string
  btTableName :: string
  btVersions :: bool
  btWithinLocalizedArrayOrBlock :: "bool option"

record shared =
  rootRelationships :: "string set option"
  rootUniqueRelationships :: "string set option"
  rootRelations :: "RelationMap option"

record buildResult =
  subHasLocalizedManyNumberField :: bool
  subHasLocalizedManyTextField :: bool
  subHasLocalizedRelationshipField :: bool
  subHasManyNumberField :: manyFlag
  subHasManyTextField :: manyFlag
  subRelationsToBuild :: RelationMap

record validateArgs =
  vBlock :: block
  vLocalized :: bool
  vRootTableName :: string
  vTable :: "table option"
  vTableLocales :: "table option"

record env =
  localization :: bool
  collections :: "string \<rightharpoonup> field list"
  tableNameMap :: "string \<rightharpoonup> string"
  idType :: string
  localesSuffix :: string
  production :: bool
  toSnakeCase :: "string \<Rightarrow> string"
  fieldAffectsData :: "field \<Rightarrow> bool"
  fieldIsVirtual :: "field \<Rightarrow> bool"
  createTableName :: "createTableNameArgs \<Rightarrow> error + string"
  buildIndexName :: "string \<Rightarrow> string"
  validateExistingBlockIsIdentical :: "validateArgs \<Rightarrow> error option"
  buildTable :: "adapter \<Rightarrow> shared \<Rightarrow> buildTableArgs \<Rightarrow> error + (adapter \<times> shared \<times> buildResult)"
  idToUUID :: "field list \<Rightarrow> field list"
  withDefault :: "column \<Rightarrow> field \<Rightarrow> column"
  hasLocalesTable :: "field list \<Rightarrow> bool"

section \<open>JavaScript helpers\<close>

text \<open>\<^verbatim>\<open>x || ''\<close> for an optional string.\<close>

definition orEmpty :: "string option \<Rightarrow> string" where
  "orEmpty x = (case x of None \<Rightarrow> [] | Some s \<Rightarrow> s)"

text \<open>\<^verbatim>\<open>s.replace('.', '_')\<close>: a string pattern replaces the first occurrence only.\<close>

fun replaceDot :: "string \<Rightarrow> string" where
  "replaceDot [] = []"
| "replaceDot (c # cs) = (if c = CHR ''.'' then CHR ''_'' # cs else c # replaceDot cs)"

text \<open>
  \<^verbatim>\<open>columnName\<close>, \<^verbatim>\<open>fieldName\<close> and the choice of \<^verbatim>\<open>targetTable\<close> and
  \<^verbatim>\<open>targetIndexes\<close>, the locals of one iteration. A name that was never assigned is
  \<^verbatim>\<open>undefined\<close>, which reads \<open>''undefined''\<close> as a property key and in a template.
\<close>

record locals =
  columnName :: string
  fieldName :: string
  targetIsLocales :: bool

definition getTarget :: "locals \<Rightarrow> state \<Rightarrow> string \<Rightarrow> column option" where
  "getTarget loc st k = (if targetIsLocales loc then localesColumns st k else columns st k)"

definition setTarget :: "locals \<Rightarrow> string \<Rightarrow> column \<Rightarrow> state \<Rightarrow> state" where
  "setTarget loc k c st =
     (if targetIsLocales loc then st\<lparr>localesColumns := (localesColumns st)(k \<mapsto> c)\<rparr>
      else st\<lparr>columns := (columns st)(k \<mapsto> c)\<rparr>)"

definition setTargetIndex :: "locals \<Rightarrow> string \<Rightarrow> indexDef \<Rightarrow> state \<Rightarrow> state" where
  "setTargetIndex loc k i st =
     (if targetIsLocales loc then st\<lparr>localesIndexes := (localesIndexes st)(k \<mapsto> i)\<rparr>
      else st\<lparr>indexes := (indexes st)(k \<mapsto> i)\<rparr>)"

text \<open>\<^verbatim>\<open>targetTable[fieldName].notNull()\<close> on an entry that exists.\<close>

definition markNotNull :: "locals \<Rightarrow> string \<Rightarrow> state \<Rightarrow> state" where
  "markNotNull loc k st =
     (case getTarget loc st k of None \<Rightarrow> st | Some c \<Rightarrow> setTarget loc k (notNull c) st)"

definition setRelation :: "nat \<Rightarrow> string \<Rightarrow> relation \<Rightarrow> state \<Rightarrow> state" where
  "setRelation r k v st = st\<lparr>relMaps := (relMaps st)(r := (relMaps st r)(k \<mapsto> v))\<rparr>"

definition createIndex :: "string list \<Rightarrow> string \<Rightarrow> bool \<Rightarrow> indexDef" where
  "createIndex on n u = \<lparr>idxOn = on, idxName = n, idxUnique = u\<rparr>"

section \<open>The start of an iteration\<close>

text \<open>
  Lines 114 to 123: the id type of the table being built, read off the class of
  \<^verbatim>\<open>columns.id\<close> by three tests in a row, the last one that holds winning.
\<close>

definition parentIDColTypeOf :: "(string \<rightharpoonup> column) \<Rightarrow> IDType" where
  "parentIDColTypeOf cols =
     (case cols ''id'' of
        None \<Rightarrow> IDinteger
      | Some c \<Rightarrow>
          (if colKind c = PgVarchar then IDvarchar
           else if colKind c = PgNumeric then IDnumeric
           else if colKind c = PgUUID then IDuuid
           else IDinteger))"

text \<open>Lines 140 to 143.\<close>

definition mkColumnName :: "env \<Rightarrow> args \<Rightarrow> string \<Rightarrow> string" where
  "mkColumnName env a n =
     orEmpty (columnPrefix a) @ (if take 1 n = ''_'' then ''_'' else []) @ toSnakeCase env n"

definition mkFieldName :: "args \<Rightarrow> string \<Rightarrow> string" where
  "mkFieldName a n = orEmpty (map_option replaceDot (fieldPrefix a)) @ n"

text \<open>Lines 147 to 153: the column goes to the locales table.\<close>

definition targetsLocales :: "env \<Rightarrow> args \<Rightarrow> field \<Rightarrow> bool" where
  "targetsLocales env a f \<longleftrightarrow>
     localization env \<and> (localized f \<or> forceLocalized a) \<and>
     ftype f \<noteq> TArray \<and> ftype f \<noteq> TBlocks \<and> \<not> hasMany f"

definition isMulti :: "relTo \<Rightarrow> bool" where
  "isMulti r = (case r of Multi _ \<Rightarrow> True | Single _ \<Rightarrow> False)"

text \<open>Lines 159 to 164: the field gets an index.\<close>

definition wantsIndex :: "field \<Rightarrow> bool" where
  "wantsIndex f \<longleftrightarrow>
     (unique f \<or> index f \<or> ftype f = TRelationship \<or> ftype f = TUpload) \<and>
     ftype f \<noteq> TArray \<and> ftype f \<noteq> TBlocks \<and> ftype f \<noteq> TGroup \<and>
     \<not> hasMany f \<and> \<not> isMulti (relationTo f)"

definition addConstraint :: "string \<Rightarrow> string \<Rightarrow> string \<Rightarrow> adapter \<Rightarrow> adapter" where
  "addConstraint root k v ad =
     ad\<lparr>fieldConstraints := (fieldConstraints ad)
        (root \<mapsto> (case fieldConstraints ad root of None \<Rightarrow> Map.empty | Some m \<Rightarrow> m)(k \<mapsto> v))\<rparr>"

text \<open>Lines 165 to 180.\<close>

definition createFieldIndex :: "env \<Rightarrow> args \<Rightarrow> field \<Rightarrow> string \<Rightarrow> locals \<Rightarrow> state \<Rightarrow> state" where
  "createFieldIndex env a f n loc st =
     (let uniq = (\<not> disableUnique a \<and> unique f);
          st1 = (if uniq
                 then st\<lparr>adapter := addConstraint (rootTableName a) (columnName loc @ ''_idx'')
                                       (orEmpty (fieldPrefix a) @ n) (adapter st)\<rparr>
                 else st);
          indexName = buildIndexName env (newTableName a @ ''_'' @ columnName loc)
      in setTargetIndex loc indexName
           (createIndex (if localized f then [fieldName loc, ''_locale''] else [fieldName loc])
              indexName uniq) st1)"

text \<open>The locals of a field that affects data and has the name \<open>n\<close>.\<close>

definition localsOf :: "env \<Rightarrow> args \<Rightarrow> field \<Rightarrow> string \<Rightarrow> locals" where
  "localsOf env a f n =
     \<lparr>columnName = mkColumnName env a n, fieldName = mkFieldName a n,
      targetIsLocales = targetsLocales env a f\<rparr>"

text \<open>
  Lines 133 to 182. \<^verbatim>\<open>field.name[0]\<close> throws a TypeError when the type guard
  \<^verbatim>\<open>fieldAffectsData\<close> accepts a field that has no name.
\<close>

definition prepare :: "env \<Rightarrow> args \<Rightarrow> field \<Rightarrow> state \<Rightarrow> result \<Rightarrow> error + (locals \<times> state \<times> result)" where
  "prepare env a f st acc =
     (if fieldAffectsData env f then
        (case name f of
           None \<Rightarrow> Inl (TypeError ''field.name is undefined'')
         | Some n \<Rightarrow>
             Inr (localsOf env a f n,
                  (if wantsIndex f then createFieldIndex env a f n (localsOf env a f n) st else st),
                  (if targetsLocales env a f then acc\<lparr>hasLocalizedField := True\<rparr> else acc)))
      else Inr (\<lparr>columnName = ''undefined'', fieldName = ''undefined'', targetIsLocales = False\<rparr>,
                st, acc))"

text \<open>Lines 943 to 953.\<close>

definition finalNotNull :: "args \<Rightarrow> locals \<Rightarrow> field \<Rightarrow> state \<Rightarrow> state" where
  "finalNotNull a loc f st =
     (if \<not> disableNotNull a \<and> getTarget loc st (fieldName loc) \<noteq> None \<and> required f \<and> \<not> condition f
      then markNotNull loc (fieldName loc) st else st)"

section \<open>The cases that do not recurse\<close>

text \<open>
  \<^verbatim>\<open>isLocalized\<close> of the array, blocks, number, select and text cases (lines 213, 349,
  664, 746, 913).
\<close>

definition isLocalizedHere :: "env \<Rightarrow> args \<Rightarrow> field \<Rightarrow> bool" where
  "isLocalizedHere env a f \<longleftrightarrow>
     (localized f \<and> localization env) \<or> withinLocalizedArrayOrBlock a \<or> forceLocalized a"

text \<open>
  \<^verbatim>\<open>adapter.enums.enum__locales(n).notNull()\<close>; calling a missing enum throws.
\<close>

definition localeColumn :: "adapter \<Rightarrow> string \<Rightarrow> error + column" where
  "localeColumn ad n =
     (case enums ad ''enum__locales'' of
        None \<Rightarrow> Inl (TypeError ''adapter.enums.enum__locales is not a function'')
      | Some e \<Rightarrow> Inr (notNull (mkColumn (PgEnumColumn (enumName e)) n)))"

text \<open>The registries handed to \<^verbatim>\<open>buildTable\<close> by reference, and their state after the call.\<close>

definition sharedOf :: "args \<Rightarrow> state \<Rightarrow> shared" where
  "sharedOf a st =
     \<lparr>rootRelationships = Some (relationships st),
      rootUniqueRelationships = Some (uniqueRelationships st),
      rootRelations = map_option (relMaps st) (rootRelationsToBuild a)\<rparr>"

definition writeShared :: "args \<Rightarrow> shared \<Rightarrow> state \<Rightarrow> state" where
  "writeShared a sh st =
     st\<lparr>relationships := (case rootRelationships sh of None \<Rightarrow> relationships st | Some s \<Rightarrow> s),
        uniqueRelationships :=
          (case rootUniqueRelationships sh of None \<Rightarrow> uniqueRelationships st | Some s \<Rightarrow> s),
        relMaps := (case rootRelationsToBuild a of
                      None \<Rightarrow> relMaps st
                    | Some r \<Rightarrow> (case rootRelations sh of
                                  None \<Rightarrow> relMaps st
                                | Some m \<Rightarrow> (relMaps st)(r := m)))\<rparr>"

text \<open>Lines 249 to 270 and 385 to 407: the flags of a child table bubble up.\<close>

definition mergeMany :: "manyFlag \<Rightarrow> manyFlag \<Rightarrow> manyFlag" where
  "mergeMany sub cur =
     (if truthy sub then (if \<not> truthy cur \<or> sub = MIndex then sub else cur) else cur)"

definition mergeSub :: "buildResult \<Rightarrow> result \<Rightarrow> result" where
  "mergeSub r acc =
     acc\<lparr>hasLocalizedManyNumberField :=
           (if subHasLocalizedManyNumberField r then True else hasLocalizedManyNumberField acc),
         hasLocalizedRelationshipField :=
           (if subHasLocalizedRelationshipField r then True else hasLocalizedRelationshipField acc),
         hasLocalizedManyTextField :=
           (if subHasLocalizedManyTextField r then True else hasLocalizedManyTextField acc),
         hasManyTextField := mergeMany (subHasManyTextField r) (hasManyTextField acc),
         hasManyNumberField := mergeMany (subHasManyNumberField r) (hasManyNumberField acc)\<rparr>"

text \<open>
  Lines 513 to 530, 580 to 597, 634 to 651, 891 to 908: the flags of a nested walk over
  the same table. A truthy flag of the nested walk sets the flag to \<^verbatim>\<open>true\<close>.
\<close>

definition mergeLayout :: "result \<Rightarrow> result \<Rightarrow> result" where
  "mergeLayout r acc =
     acc\<lparr>hasLocalizedField := (if hasLocalizedField r then True else hasLocalizedField acc),
         hasLocalizedRelationshipField :=
           (if hasLocalizedRelationshipField r then True else hasLocalizedRelationshipField acc),
         hasManyTextField := (if truthy (hasManyTextField r) then MTrue else hasManyTextField acc),
         hasLocalizedManyTextField :=
           (if hasLocalizedManyTextField r then True else hasLocalizedManyTextField acc),
         hasManyNumberField := (if truthy (hasManyNumberField r) then MTrue else hasManyNumberField acc),
         hasLocalizedManyNumberField :=
           (if hasLocalizedManyNumberField r then True else hasLocalizedManyNumberField acc)\<rparr>"

definition setRelations :: "string \<Rightarrow> relationsDecl \<Rightarrow> state \<Rightarrow> state" where
  "setRelations k d st = st\<lparr>adapter := (adapter st)\<lparr>relations := (relations (adapter st))(k \<mapsto> d)\<rparr>\<rparr>"

subsection \<open>array (lines 185 to 317)\<close>

text \<open>Lines 197 to 222 and 232 to 246: the arguments of \<^verbatim>\<open>buildTable\<close>.\<close>

definition arrayTableArgs :: "env \<Rightarrow> args \<Rightarrow> IDType \<Rightarrow> field \<Rightarrow> string \<Rightarrow> (string \<times> column) list \<Rightarrow> buildTableArgs" where
  "arrayTableArgs env a parentIDColType f arrayTableName localeCols =
     \<lparr>baseColumns =
        [(''_order'', notNull (mkColumn PgInteger ''_order'')),
         (''_parentID'', notNull (parentIDColumnMap parentIDColType ''_parent_id''))]
        @ localeCols,
      baseExtraConfig =
        [(''_orderIdx'', ExIndex (arrayTableName @ ''_order_idx'') [''_order'']),
         (''_parentIDFk'', ExForeignKey (arrayTableName @ ''_parent_id_fk'')
                             [''_parentID''] (parentTableName a)),
         (''_parentIDIdx'', ExIndex (arrayTableName @ ''_parent_id_idx'') [''_parentID''])]
        @ (if isLocalizedHere env a f
           then [(''_localeIdx'', ExIndex (arrayTableName @ ''_locale_idx'') [''_locale''])]
           else []),
      btDisableNotNull = (condition f \<or> disableNotNull a),
      btDisableRelsTableUnique = Some True,
      btDisableUnique = disableUnique a,
      btFields = (if disableUnique a then idToUUID env (fieldsOf f) else fieldsOf f),
      btRootTableIDColType = Some (rootTableIDColType a),
      btRootTableName = rootTableName a,
      btTableName = arrayTableName,
      btVersions = versions a,
      btWithinLocalizedArrayOrBlock = Some (isLocalizedHere env a f)\<rparr>"

text \<open>Lines 218 to 222, 354 to 358, 751 to 755: the locale column of a localized child table.\<close>

definition localeColumns :: "env \<Rightarrow> args \<Rightarrow> field \<Rightarrow> state \<Rightarrow> string \<Rightarrow> string \<Rightarrow> error + (string \<times> column) list" where
  "localeColumns env a f st k n =
     (if isLocalizedHere env a f
      then map_sum id (\<lambda>c. [(k, c)]) (localeColumn (adapter st) n)
      else Inr [])"

definition arrayCase :: "env \<Rightarrow> args \<Rightarrow> IDType \<Rightarrow> locals \<Rightarrow> field \<Rightarrow> state \<Rightarrow> result \<Rightarrow> error + (state \<times> result)" where
  "arrayCase env a parentIDColType loc f st acc =
     (case createTableName env
             \<lparr>ctnConfig = CField f, ctnParentTableName = newTableName a,
              ctnPrefix = newTableName a @ ''_'', ctnTarget = None,
              ctnThrowValidationError = True, ctnVersionsCustomName = versions a\<rparr> of
        Inl e \<Rightarrow> Inl e
      | Inr arrayTableName \<Rightarrow>
          (case localeColumns env a f st ''_locale'' ''_locale'' of
             Inl e \<Rightarrow> Inl e
           | Inr localeCols \<Rightarrow>
               (case buildTable env (adapter st) (sharedOf a st)
                       (arrayTableArgs env a parentIDColType f arrayTableName localeCols) of
                  Inl e \<Rightarrow> Inl e
                | Inr (ad, sh, r) \<Rightarrow>
                    (let st1 = writeShared a sh (st\<lparr>adapter := ad\<rparr>);
                         st2 = setRelation (relationsToBuild a) (fieldName loc)
                                 \<lparr>relType = Many, relLocalized = False, relTarget = Some arrayTableName\<rparr> st1;
                         st3 = setRelations (''relations_'' @ arrayTableName)
                                 \<lparr>rdTable = tables (adapter st2) arrayTableName,
                                  rdParentKey = ''_parentID'',
                                  rdParentTable = parentTableName a,
                                  rdRelationName = fieldName loc,
                                  rdLocales = hasLocalesTable env (fieldsOf f),
                                  rdSub = subRelationsToBuild r\<rparr> st2
                     in Inr (st3, mergeSub r acc)))))"

subsection \<open>blocks (lines 318 to 465)\<close>

text \<open>Lines 331 to 358 and 368 to 382: the arguments of \<^verbatim>\<open>buildTable\<close>.\<close>

definition blockTableArgs :: "env \<Rightarrow> args \<Rightarrow> field \<Rightarrow> block \<Rightarrow> string \<Rightarrow> (string \<times> column) list \<Rightarrow> buildTableArgs" where
  "blockTableArgs env a f b blockTableName localeCols =
     \<lparr>baseColumns =
        [(''_order'', notNull (mkColumn PgInteger ''_order'')),
         (''_parentID'', notNull (parentIDColumnMap (rootTableIDColType a) ''_parent_id'')),
         (''_path'', notNull (mkColumn PgText ''_path''))]
        @ localeCols,
      baseExtraConfig =
        [(''_orderIdx'', ExIndex (blockTableName @ ''_order_idx'') [''_order'']),
         (''_parentIdFk'', ExForeignKey (blockTableName @ ''_parent_id_fk'')
                             [''_parentID''] (rootTableName a)),
         (''_parentIDIdx'', ExIndex (blockTableName @ ''_parent_id_idx'') [''_parentID'']),
         (''_pathIdx'', ExIndex (blockTableName @ ''_path_idx'') [''_path''])]
        @ (if isLocalizedHere env a f
           then [(''_localeIdx'', ExIndex (blockTableName @ ''_locale_idx'') [''_locale''])]
           else []),
      btDisableNotNull = (condition f \<or> disableNotNull a),
      btDisableRelsTableUnique = Some True,
      btDisableUnique = disableUnique a,
      btFields = (if disableUnique a then idToUUID env (blockFields b) else blockFields b),
      btRootTableIDColType = Some (rootTableIDColType a),
      btRootTableName = rootTableName a,
      btTableName = blockTableName,
      btVersions = versions a,
      btWithinLocalizedArrayOrBlock = Some (isLocalizedHere env a f)\<rparr>"

text \<open>Lines 331 to 445: the block's table does not exist yet and is built.\<close>

definition buildBlock :: "env \<Rightarrow> args \<Rightarrow> field \<Rightarrow> block \<Rightarrow> string \<Rightarrow> state \<Rightarrow> result \<Rightarrow> error + (state \<times> result)" where
  "buildBlock env a f b blockTableName st acc =
     (case localeColumns env a f st ''_locale'' ''_locale'' of
        Inl e \<Rightarrow> Inl e
      | Inr localeCols \<Rightarrow>
          (case buildTable env (adapter st) (sharedOf a st)
                  (blockTableArgs env a f b blockTableName localeCols) of
             Inl e \<Rightarrow> Inl e
           | Inr (ad, sh, r) \<Rightarrow>
               (let st1 = writeShared a sh (st\<lparr>adapter := ad\<rparr>);
                    st2 = setRelations (''relations_'' @ blockTableName)
                            \<lparr>rdTable = tables (adapter st1) blockTableName,
                             rdParentKey = ''_parentID'',
                             rdParentTable = rootTableName a,
                             rdRelationName = ''_blocks_'' @ slug b,
                             rdLocales = hasLocalesTable env (blockFields b),
                             rdSub = subRelationsToBuild r\<rparr> st1
                in Inr (st2, mergeSub r acc))))"

text \<open>
  Lines 446 to 454: the block's table exists. It is compared with the block outside
  production and outside a versions pass only.
\<close>

definition checkBlock :: "env \<Rightarrow> args \<Rightarrow> field \<Rightarrow> block \<Rightarrow> string \<Rightarrow> state \<Rightarrow> error option" where
  "checkBlock env a f b blockTableName st =
     (if \<not> production env \<and> \<not> versions a
      then validateExistingBlockIsIdentical env
             \<lparr>vBlock = b, vLocalized = localized f, vRootTableName = rootTableName a,
              vTable = tables (adapter st) blockTableName,
              vTableLocales = tables (adapter st) (blockTableName @ localesSuffix env)\<rparr>
      else None)"

text \<open>Lines 322 to 329.\<close>

definition blockTableNameOf :: "env \<Rightarrow> args \<Rightarrow> block \<Rightarrow> error + string" where
  "blockTableNameOf env a b =
     createTableName env
       \<lparr>ctnConfig = CBlock b, ctnParentTableName = rootTableName a,
        ctnPrefix = rootTableName a @ ''_blocks_'', ctnTarget = None,
        ctnThrowValidationError = True, ctnVersionsCustomName = versions a\<rparr>"

text \<open>
  Lines 321 to 462, the callback of \<^verbatim>\<open>field.blocks.forEach\<close>.
  \<^verbatim>\<open>rootRelationsToBuild.set\<close> throws when the optional argument was not passed.
\<close>

definition blockBody :: "env \<Rightarrow> args \<Rightarrow> field \<Rightarrow> block \<Rightarrow> state \<Rightarrow> result \<Rightarrow> error + (state \<times> result)" where
  "blockBody env a f b st acc =
     (case blockTableNameOf env a b of
        Inl e \<Rightarrow> Inl e
      | Inr blockTableName \<Rightarrow>
          (case (if tables (adapter st) blockTableName = None
                 then buildBlock env a f b blockTableName st acc
                 else (case checkBlock env a f b blockTableName st of
                         Some e \<Rightarrow> Inl e
                       | None \<Rightarrow> Inr (st, acc))) of
             Inl e \<Rightarrow> Inl e
           | Inr (st1, acc1) \<Rightarrow>
               (case rootRelationsToBuild a of
                  None \<Rightarrow> Inl (TypeError ''rootRelationsToBuild is undefined'')
                | Some r \<Rightarrow>
                    Inr (setRelation r (''_blocks_'' @ slug b)
                           \<lparr>relType = Many, relLocalized = False, relTarget = Some blockTableName\<rparr> st1,
                         acc1))))"

fun blocksForEach :: "env \<Rightarrow> args \<Rightarrow> field \<Rightarrow> block list \<Rightarrow> state \<Rightarrow> result \<Rightarrow> error + (state \<times> result)" where
  "blocksForEach env a f [] st acc = Inr (st, acc)"
| "blocksForEach env a f (b # bs) st acc =
     (case blockBody env a f b st acc of
        Inl e \<Rightarrow> Inl e
      | Inr (st1, acc1) \<Rightarrow> blocksForEach env a f bs st1 acc1)"

subsection \<open>Columns of scalar fields\<close>

text \<open>
  checkbox, code, email, textarea, date, json, richText (lines 466 to 477, 534 to 544,
  655 to 660): \<^verbatim>\<open>targetTable[fieldName] = withDefault(ctor(columnName), field)\<close>.
\<close>

definition scalarCase :: "env \<Rightarrow> colKind \<Rightarrow> locals \<Rightarrow> field \<Rightarrow> state \<Rightarrow> state" where
  "scalarCase env k loc f st =
     setTarget loc (fieldName loc) (withDefault env (mkColumn k (columnName loc)) f) st"

text \<open>point (lines 690 to 696).\<close>

definition pointCase :: "env \<Rightarrow> locals \<Rightarrow> field \<Rightarrow> state \<Rightarrow> state" where
  "pointCase env loc f st =
     (let st1 = scalarCase env PgGeometry loc f st
      in st1\<lparr>adapter := (adapter st1)\<lparr>postgis := True\<rparr>\<rparr>)"

subsection \<open>number and text (lines 662 to 688 and 911 to 937)\<close>

definition numberCase :: "env \<Rightarrow> args \<Rightarrow> locals \<Rightarrow> field \<Rightarrow> state \<Rightarrow> result \<Rightarrow> error + (state \<times> result)" where
  "numberCase env a loc f st acc =
     (if hasMany f then
        (let acc1 = (if isLocalizedHere env a f then acc\<lparr>hasLocalizedManyNumberField := True\<rparr> else acc);
             acc2 = (if index f then acc1\<lparr>hasManyNumberField := MIndex\<rparr>
                     else if \<not> truthy (hasManyNumberField acc1) then acc1\<lparr>hasManyNumberField := MTrue\<rparr>
                     else acc1)
         in if unique f
            then Inl (InvalidConfiguration ''Unique is not supported in Postgres for hasMany number fields.'')
            else Inr (st, acc2))
      else Inr (scalarCase env PgNumeric loc f st, acc))"

definition textCase :: "env \<Rightarrow> args \<Rightarrow> locals \<Rightarrow> field \<Rightarrow> state \<Rightarrow> result \<Rightarrow> error + (state \<times> result)" where
  "textCase env a loc f st acc =
     (if hasMany f then
        (let acc1 = (if isLocalizedHere env a f then acc\<lparr>hasLocalizedManyTextField := True\<rparr> else acc);
             acc2 = (if index f then acc1\<lparr>hasManyTextField := MIndex\<rparr>
                     else if \<not> truthy (hasManyTextField acc1) then acc1\<lparr>hasManyTextField := MTrue\<rparr>
                     else acc1)
         in if unique f
            then Inl (InvalidConfiguration ''Unique is not supported in Postgres for hasMany text fields.'')
            else Inr (st, acc2))
      else Inr (scalarCase env PgVarchar loc f st, acc))"

subsection \<open>radio and select (lines 697 to 794)\<close>

definition optionValueOf :: "selOption \<Rightarrow> string" where
  "optionValueOf opt = (case opt of OptString s \<Rightarrow> s | OptObject l v \<Rightarrow> v)"

definition setEnum :: "string \<Rightarrow> pgEnum \<Rightarrow> state \<Rightarrow> state" where
  "setEnum k e st = st\<lparr>adapter := (adapter st)\<lparr>enums := (enums (adapter st))(k \<mapsto> e)\<rparr>\<rparr>"

text \<open>Lines 729 to 759 and 762 to 770: the arguments of \<^verbatim>\<open>buildTable\<close>.\<close>

definition selectTableArgs :: "env \<Rightarrow> args \<Rightarrow> IDType \<Rightarrow> field \<Rightarrow> string \<Rightarrow> string \<Rightarrow> (string \<times> column) list \<Rightarrow> buildTableArgs" where
  "selectTableArgs env a parentIDColType f enumNm selectTableName localeCols =
     \<lparr>baseColumns =
        [(''order'', notNull (mkColumn PgInteger ''order'')),
         (''parent'', notNull (parentIDColumnMap parentIDColType ''parent_id'')),
         (''value'', mkColumn (PgEnumColumn enumNm) ''value'')]
        @ localeCols,
      baseExtraConfig =
        [(''orderIdx'', ExIndex (selectTableName @ ''_order_idx'') [''order'']),
         (''parentFk'', ExForeignKey (selectTableName @ ''_parent_fk'')
                          [''parent''] (parentTableName a)),
         (''parentIdx'', ExIndex (selectTableName @ ''_parent_idx'') [''parent''])]
        @ (if isLocalizedHere env a f
           then [(''localeIdx'', ExIndex (selectTableName @ ''_locale_idx'') [''locale''])]
           else [])
        @ (if index f
           then [(''value'', ExIndex (selectTableName @ ''_value_idx'') [''value''])]
           else []),
      btDisableNotNull = disableNotNull a,
      btDisableRelsTableUnique = None,
      btDisableUnique = disableUnique a,
      btFields = [],
      btRootTableIDColType = None,
      btRootTableName = rootTableName a,
      btTableName = selectTableName,
      btVersions = versions a,
      btWithinLocalizedArrayOrBlock = None\<rparr>"

text \<open>
  Lines 720 to 789: a select with \<^verbatim>\<open>hasMany\<close> gets a child table. This call of
  \<^verbatim>\<open>buildTable\<close> passes none of the root-scoped registries.
\<close>

definition selectManyCase :: "env \<Rightarrow> args \<Rightarrow> IDType \<Rightarrow> locals \<Rightarrow> field \<Rightarrow> string \<Rightarrow> state \<Rightarrow> result \<Rightarrow> error + (state \<times> result)" where
  "selectManyCase env a parentIDColType loc f enumNm st acc =
     (case createTableName env
             \<lparr>ctnConfig = CField f, ctnParentTableName = newTableName a,
              ctnPrefix = newTableName a @ ''_'', ctnTarget = None,
              ctnThrowValidationError = True, ctnVersionsCustomName = versions a\<rparr> of
        Inl e \<Rightarrow> Inl e
      | Inr selectTableName \<Rightarrow>
          (case localeColumns env a f st ''locale'' ''locale'' of
             Inl e \<Rightarrow> Inl e
           | Inr localeCols \<Rightarrow>
               (case buildTable env (adapter st)
                       \<lparr>rootRelationships = None, rootUniqueRelationships = None, rootRelations = None\<rparr>
                       (selectTableArgs env a parentIDColType f enumNm selectTableName localeCols) of
                  Inl e \<Rightarrow> Inl e
                | Inr (ad, sh, r) \<Rightarrow>
                    (let st1 = st\<lparr>adapter := ad\<rparr>;
                         st2 = setRelation (relationsToBuild a) (fieldName loc)
                                 \<lparr>relType = Many, relLocalized = False, relTarget = Some selectTableName\<rparr> st1;
                         st3 = setRelations (''relations_'' @ selectTableName)
                                 \<lparr>rdTable = tables (adapter st2) selectTableName,
                                  rdParentKey = ''parent'',
                                  rdParentTable = parentTableName a,
                                  rdRelationName = fieldName loc,
                                  rdLocales = False,
                                  rdSub = Map.empty\<rparr> st2
                     in Inr (st3, acc)))))"

definition selectCase :: "env \<Rightarrow> args \<Rightarrow> IDType \<Rightarrow> locals \<Rightarrow> field \<Rightarrow> state \<Rightarrow> result \<Rightarrow> error + (state \<times> result)" where
  "selectCase env a parentIDColType loc f st acc =
     (case createTableName env
             \<lparr>ctnConfig = CField f, ctnParentTableName = newTableName a,
              ctnPrefix = ''enum_'' @ newTableName a @ ''_'', ctnTarget = Some ''enumName'',
              ctnThrowValidationError = True, ctnVersionsCustomName = False\<rparr> of
        Inl e \<Rightarrow> Inl e
      | Inr enumNm \<Rightarrow>
          (let st1 = setEnum enumNm \<lparr>enumName = enumNm, enumValues = map optionValueOf (options f)\<rparr> st
           in if ftype f = TSelect \<and> hasMany f
              then selectManyCase env a parentIDColType loc f enumNm st1 acc
              else Inr (scalarCase env (PgEnumColumn enumNm) loc f st1, acc)))"

subsection \<open>relationship and upload (lines 796 to 855)\<close>

text \<open>Lines 799 to 809: the targets of a polymorphic or multi-valued relationship.\<close>

definition addRelationships :: "args \<Rightarrow> field \<Rightarrow> string list \<Rightarrow> state \<Rightarrow> state" where
  "addRelationships a f rs st =
     st\<lparr>relationships := relationships st \<union> set rs,
        uniqueRelationships :=
          (if unique f \<and> \<not> disableUnique a \<and> \<not> disableRelsTableUnique a
           then uniqueRelationships st \<union> set rs else uniqueRelationships st)\<rparr>"

text \<open>Lines 848 to 853.\<close>

definition noteLocalizedRelationship :: "env \<Rightarrow> args \<Rightarrow> field \<Rightarrow> result \<Rightarrow> result" where
  "noteLocalizedRelationship env a f acc =
     (if (localized f \<and> localization env) \<or> withinLocalizedArrayOrBlock a
      then acc\<lparr>hasLocalizedRelationshipField := True\<rparr> else acc)"

text \<open>Lines 816 to 826: the id type of the related collection.\<close>

definition relatedIDType :: "env \<Rightarrow> field list \<Rightarrow> IDType" where
  "relatedIDType env cfg =
     (case find (\<lambda>g. fieldAffectsData env g \<and> name g = Some ''id'') cfg of
        None \<Rightarrow> (if idType env = ''uuid'' then IDuuid else IDinteger)
      | Some g \<Rightarrow>
          (if ftype g = TText then IDvarchar
           else if ftype g = TNumber then IDnumeric
           else if idType env = ''uuid'' then IDuuid else IDinteger))"

text \<open>
  Lines 810 to 846: a single-target, single-valued relationship gets a foreign-key
  column. Reading \<^verbatim>\<open>.config\<close> of a collection that does not exist throws.
\<close>

definition relationshipOneCase :: "env \<Rightarrow> args \<Rightarrow> locals \<Rightarrow> field \<Rightarrow> string \<Rightarrow> state \<Rightarrow> error + state" where
  "relationshipOneCase env a loc f r st =
     (case collections env r of
        None \<Rightarrow> Inl (TypeError ''adapter.payload.collections[field.relationTo] is undefined'')
      | Some cfg \<Rightarrow>
          (let tableName = tableNameMap env (toSnakeCase env r);
               st1 = setTarget loc (fieldName loc)
                       (references tableName
                          (parentIDColumnMap (relatedIDType env cfg) (columnName loc @ ''_id''))) st;
               st2 = setRelation (relationsToBuild a) (fieldName loc)
                       \<lparr>relType = One,
                        relLocalized = (localization env \<and> (localized f \<or> forceLocalized a)),
                        relTarget = tableName\<rparr> st1
           in Inr (if \<not> disableNotNull a \<and> required f \<and> \<not> condition f
                   then markNotNull loc (fieldName loc) st2 else st2)))"

definition relationshipCase :: "env \<Rightarrow> args \<Rightarrow> locals \<Rightarrow> field \<Rightarrow> state \<Rightarrow> result \<Rightarrow> error + (state \<times> result)" where
  "relationshipCase env a loc f st acc =
     (case relationTo f of
        Multi rs \<Rightarrow> Inr (addRelationships a f rs st, noteLocalizedRelationship env a f acc)
      | Single r \<Rightarrow>
          (if hasMany f
           then Inr (addRelationships a f [r] st, noteLocalizedRelationship env a f acc)
           else map_sum id (\<lambda>st1. (st1, acc)) (relationshipOneCase env a loc f r st)))"

section \<open>The walker\<close>

text \<open>\<^verbatim>\<open>{ ...tab, type: 'tab' }\<close> (line 874).\<close>

definition asTab :: "field \<Rightarrow> field" where
  "asTab t =
     (case t of MkField ty n l hm u i r c v rt os fs bs ts \<Rightarrow>
        MkField TTab n l hm u i r c v rt os fs bs ts)"

text \<open>
  The arguments of the four nested calls of \<^verbatim>\<open>traverseFields\<close>. None of them passes
  \<^verbatim>\<open>disableRelsTableUnique\<close>, which is therefore \<^verbatim>\<open>undefined\<close> in the nested walk.
  Row, collapsible and tabs (lines 489 to 511 and 867 to 889) pass
  \<^verbatim>\<open>disableNotNullFromHere\<close>; a group or tab without a name (lines 556 to 578) passes
  its own arguments on; a named group or tab (lines 610 to 632) extends the prefixes.
\<close>

definition layoutArgs :: "args \<Rightarrow> field \<Rightarrow> args" where
  "layoutArgs a f =
     a\<lparr>disableNotNull := (condition f \<or> disableNotNull a), disableRelsTableUnique := False\<rparr>"

definition unnamedGroupArgs :: "args \<Rightarrow> args" where
  "unnamedGroupArgs a = a\<lparr>disableRelsTableUnique := False\<rparr>"

definition namedGroupArgs :: "args \<Rightarrow> locals \<Rightarrow> field \<Rightarrow> args" where
  "namedGroupArgs a loc f =
     a\<lparr>columnPrefix := Some (columnName loc @ ''_''),
       disableNotNull := (condition f \<or> disableNotNull a),
       disableRelsTableUnique := False,
       fieldPrefix := Some (fieldName loc @ ''.''),
       forceLocalized := localized f,
       newTableName := parentTableName a @ ''_'' @ columnName loc,
       withinLocalizedArrayOrBlock := (withinLocalizedArrayOrBlock a \<or> localized f)\<rparr>"

text \<open>
  The cases of the switch that walk a nested field list over the same table, with the
  arguments and the list of the nested call.
\<close>

definition nestedWalk :: "args \<Rightarrow> locals \<Rightarrow> field \<Rightarrow> (args \<times> field list) option" where
  "nestedWalk a loc f =
     (if ftype f = TCollapsible \<or> ftype f = TRow then Some (layoutArgs a f, fieldsOf f)
      else if ftype f = TGroup \<or> ftype f = TTab then
        (if name f = None then Some (unnamedGroupArgs a, fieldsOf f)
         else Some (namedGroupArgs a loc f, fieldsOf f))
      else if ftype f = TTabs then Some (layoutArgs a f, map asTab (tabs f))
      else None)"

text \<open>The other cases of the switch; \<^verbatim>\<open>join\<close> and \<^verbatim>\<open>ui\<close> fall to the default.\<close>

definition leafCase :: "env \<Rightarrow> args \<Rightarrow> IDType \<Rightarrow> locals \<Rightarrow> field \<Rightarrow> state \<Rightarrow> result \<Rightarrow> error + (state \<times> result)" where
  "leafCase env a parentIDColType loc f st acc =
     (case ftype f of
        TArray \<Rightarrow> arrayCase env a parentIDColType loc f st acc
      | TBlocks \<Rightarrow> blocksForEach env a f (blocks f) st acc
      | TCheckbox \<Rightarrow> Inr (scalarCase env PgBoolean loc f st, acc)
      | TCode \<Rightarrow> Inr (scalarCase env PgVarchar loc f st, acc)
      | TEmail \<Rightarrow> Inr (scalarCase env PgVarchar loc f st, acc)
      | TTextarea \<Rightarrow> Inr (scalarCase env PgVarchar loc f st, acc)
      | TDate \<Rightarrow> Inr (scalarCase env PgTimestamp loc f st, acc)
      | TJson \<Rightarrow> Inr (scalarCase env PgJsonb loc f st, acc)
      | TRichText \<Rightarrow> Inr (scalarCase env PgJsonb loc f st, acc)
      | TNumber \<Rightarrow> numberCase env a loc f st acc
      | TPoint \<Rightarrow> Inr (pointCase env loc f st, acc)
      | TRadio \<Rightarrow> selectCase env a parentIDColType loc f st acc
      | TSelect \<Rightarrow> selectCase env a parentIDColType loc f st acc
      | TRelationship \<Rightarrow> relationshipCase env a loc f st acc
      | TUpload \<Rightarrow> relationshipCase env a loc f st acc
      | TText \<Rightarrow> textCase env a loc f st acc
      | _ \<Rightarrow> Inr (st, acc))"

text \<open>
  The fields for which the switch assigns \<^verbatim>\<open>targetTable[fieldName]\<close>: the scalar
  kinds, radio, and number, text, select, relationship and upload when the field is
  single-valued and has one target.
\<close>

definition storedInColumn :: "field \<Rightarrow> bool" where
  "storedInColumn f \<longleftrightarrow>
     \<not> hasMany f \<and> \<not> isMulti (relationTo f) \<and>
     ftype f \<noteq> TArray \<and> ftype f \<noteq> TBlocks \<and> ftype f \<noteq> TCollapsible \<and> ftype f \<noteq> TGroup \<and>
     ftype f \<noteq> TJoin \<and> ftype f \<noteq> TRow \<and> ftype f \<noteq> TTab \<and> ftype f \<noteq> TTabs \<and> ftype f \<noteq> TUI"

lemma size_fieldsOf: "size_list size (fieldsOf f) < size f"
  by (cases f) simp

lemma size_tabs: "size_list size (map asTab (tabs f)) < size f"
proof -
  have "size (asTab t) = size t" for t
    by (cases t) (simp add: asTab_def)
  then have "size_list size (map asTab ts) = size_list size ts" for ts
    by (induction ts) simp_all
  then show ?thesis
    by (cases f) simp
qed

lemma size_nestedWalk: "nestedWalk a loc f = Some (a', fs) \<Longrightarrow> size_list size fs < size f"
  using size_fieldsOf [of f] size_tabs [of f]
  by (auto simp: nestedWalk_def split: if_splits)

text \<open>
  \<open>forEachField\<close> is \<^verbatim>\<open>fields.forEach\<close> (lines 125 to 954) and \<open>fieldBody\<close> its
  callback. The flags declared at lines 107 to 112 and the id type of lines 114 to 123
  belong to one call of \<^verbatim>\<open>traverseFields\<close>: the callback receives and returns the
  flags, and a nested call starts from fresh ones. A thrown error ends the walk.
\<close>

function forEachField :: "env \<Rightarrow> args \<Rightarrow> IDType \<Rightarrow> field list \<Rightarrow> state \<Rightarrow> result \<Rightarrow> error + (state \<times> result)"
  and fieldBody :: "env \<Rightarrow> args \<Rightarrow> IDType \<Rightarrow> field \<Rightarrow> state \<Rightarrow> result \<Rightarrow> error + (state \<times> result)"
where
  "forEachField env a p [] st acc = Inr (st, acc)"
| "forEachField env a p (f # fs) st acc =
     (case fieldBody env a p f st acc of
        Inl e \<Rightarrow> Inl e
      | Inr (st1, acc1) \<Rightarrow> forEachField env a p fs st1 acc1)"
| "fieldBody env a p f st acc =
     (if name f = Some ''id'' then Inr (st, acc)
      else if fieldIsVirtual env f then Inr (st, acc)
      else
        (case prepare env a f st acc of
           Inl e \<Rightarrow> Inl e
         | Inr (loc, st0, acc0) \<Rightarrow>
             (case (case nestedWalk a loc f of
                      Some (a', fs) \<Rightarrow>
                        (case forEachField env a' (parentIDColTypeOf (columns st0)) fs st0 initResult of
                           Inl e \<Rightarrow> Inl e
                         | Inr (st1, r) \<Rightarrow> Inr (st1, mergeLayout r acc0))
                    | None \<Rightarrow> leafCase env a p loc f st0 acc0) of
                Inl e \<Rightarrow> Inl e
              | Inr (st1, acc1) \<Rightarrow> Inr (finalNotNull a loc f st1, acc1))))"
  by pat_completeness auto
termination
  by (relation "measure (\<lambda>x. case x of
          Inl (env, a, p, fs, st, acc) \<Rightarrow> 2 * size_list size fs
        | Inr (env, a, p, f, st, acc) \<Rightarrow> 2 * size f + 1)")
     (auto dest: size_nestedWalk)

text \<open>Lines 82 to 964.\<close>

definition traverseFields :: "env \<Rightarrow> args \<Rightarrow> field list \<Rightarrow> state \<Rightarrow> error + (state \<times> result)" where
  "traverseFields env a fs st = forEachField env a (parentIDColTypeOf (columns st)) fs st initResult"

section \<open>The fields a walk reaches\<close>

text \<open>
  The field list of the nested call a field opens, which does not depend on the
  arguments: the children of a row, collapsible, group or tab, and the tabs of a tab
  set, each marked as a tab.
\<close>

definition nestedFields :: "field \<Rightarrow> field list" where
  "nestedFields f =
     (if ftype f = TCollapsible \<or> ftype f = TRow \<or> ftype f = TGroup \<or> ftype f = TTab
      then fieldsOf f
      else if ftype f = TTabs then map asTab (tabs f)
      else [])"

lemma size_nestedFields: "size_list size (nestedFields f) < Suc (size f)"
  using size_fieldsOf [of f] size_tabs [of f] by (simp add: nestedFields_def)

text \<open>
  The fields on which one call of \<^verbatim>\<open>traverseFields\<close> runs its switch when no error
  stops it: the fields of the list that are neither named \<^verbatim>\<open>id\<close> nor virtual, and
  the fields the nested calls reach in the same way. The fields of arrays and blocks
  are not among them: they are walked by \<^verbatim>\<open>buildTable\<close>.
\<close>

function walked :: "env \<Rightarrow> field list \<Rightarrow> field list" where
  "walked env [] = []"
| "walked env (f # fs) =
     (if name f = Some ''id'' \<or> fieldIsVirtual env f then []
      else f # walked env (nestedFields f)) @ walked env fs"
  by pat_completeness auto
termination
proof (relation "measure (\<lambda>(env, fs). size_list size fs)")
  fix env :: env and f :: field and fs :: "field list"
  show "((env, nestedFields f), (env, f # fs)) \<in> measure (\<lambda>(env, fs). size_list size fs)"
    using size_nestedFields [of f] by simp
qed simp_all

text \<open>The fields for which the switch calls \<^verbatim>\<open>buildTable\<close>.\<close>

definition buildsTable :: "field \<Rightarrow> bool" where
  "buildsTable f \<longleftrightarrow> ftype f = TArray \<or> ftype f = TBlocks \<or> (ftype f = TSelect \<and> hasMany f)"

text \<open>A multi-valued number or text field that asks for \<^verbatim>\<open>unique\<close>, and the two errors of lines 679 to 683 and 928 to 932.\<close>

definition hasManyUnique :: "field \<Rightarrow> bool" where
  "hasManyUnique f \<longleftrightarrow> (ftype f = TNumber \<or> ftype f = TText) \<and> hasMany f \<and> unique f"



section \<open>The Table Builder and the naming service after the spec\<close>

text \<open>
  Modelled from the spec: \<^verbatim>\<open>createTableName\<close> (createTableName.ts) and
  \<^verbatim>\<open>buildIndexName\<close> (utilities/buildIndexName.ts) are not among the sources. The
  Naming Service derives a name from the path segments "joined with a fixed separator"
  and is pure: the prefix the walker passes, followed by the snake-cased name of the
  field or slug of the block, and the given name followed by \<^verbatim>\<open>_idx\<close>.
\<close>

definition createTableNameSpec :: "(string \<Rightarrow> string) \<Rightarrow> createTableNameArgs \<Rightarrow> error + string" where
  "createTableNameSpec snake x =
     Inr (ctnPrefix x @ snake (case ctnConfig x of CField f \<Rightarrow> orEmpty (name f) | CBlock b \<Rightarrow> slug b))"

definition buildIndexNameSpec :: "string \<Rightarrow> string" where
  "buildIndexNameSpec n = n @ ''_idx''"

text \<open>
  Modelled from the spec: \<^verbatim>\<open>validateExistingBlockIsIdentical\<close>
  (utilities/validateExistingBlockIsIdentical.ts) is not among the sources. A later
  occurrence of a block "must structurally match the already-built table (column set,
  types, constraints) or compilation fails": every named, single-valued field of the
  block that is stored in a column must be a column of the table or of its locales
  table, and the block is localized exactly when the table has a \<^verbatim>\<open>_locale\<close> column.
\<close>

definition blockColumnNames :: "block \<Rightarrow> string list" where
  "blockColumnNames b =
     List.map_filter (\<lambda>f. if storedInColumn f \<and> \<not> virtual f \<and> name f \<noteq> Some ''id'' then name f else None)
       (blockFields b)"

definition validateSpec :: "validateArgs \<Rightarrow> error option" where
  "validateSpec x =
     (case vTable x of
        None \<Rightarrow> None
      | Some t \<Rightarrow>
          (if list_all (\<lambda>n. tblColumns t n \<noteq> None \<or>
                            (case vTableLocales x of None \<Rightarrow> False | Some l \<Rightarrow> tblColumns l n \<noteq> None))
                (blockColumnNames (vBlock x))
              \<and> (vLocalized x \<longleftrightarrow> tblColumns t ''_locale'' \<noteq> None)
           then None
           else Some (InvalidConfiguration
                  (''The table '' @ vRootTableName x @ '' has multiple blocks with slug ''
                   @ slug (vBlock x) @ '', but the schemas do not match.''))))"

text \<open>
  Modelled from the spec: \<^verbatim>\<open>buildTable\<close> (schema/build.ts) is not among the sources.
  The Table Builder has the contract
  \<^verbatim>\<open>buildTable(name, baseColumns, walk-over(fields)) -> TableSpec + AggregateFlags\<close>:
  it "registers one physical table, applies row-level defaults (id column, timestamps,
  locale side-table if needed), and records it in the adapter's table registry"; "if
  name already exists in the Adapter Context, return the existing spec without
  re-walking"; it adds a locale side-table when a field of the subtree is localized,
  holding "only the columns of localized fields plus a locale discriminator and parent
  foreign key". The walk runs over fresh column and index sets and a fresh relation map
  (address 0); the root-scoped registries are those of the caller (the relation map at
  address 1), or the table's own when the caller passed none. The walk of a child table
  may build child tables in turn: the first argument bounds that nesting, and the
  builder fails with \<open>NestingLimit\<close> when it is used up.
\<close>

definition noFlags :: buildResult where
  "noFlags = \<lparr>subHasLocalizedManyNumberField = False, subHasLocalizedManyTextField = False,
     subHasLocalizedRelationshipField = False, subHasManyNumberField = MFalse,
     subHasManyTextField = MFalse, subRelationsToBuild = Map.empty\<rparr>"

definition idColumn :: "env \<Rightarrow> column" where
  "idColumn env = mkColumn (if idType env = ''uuid'' then PgUUID else PgInteger) ''id''"

definition builderArgs :: "shared \<Rightarrow> buildTableArgs \<Rightarrow> IDType \<Rightarrow> args" where
  "builderArgs sh x own =
     \<lparr>columnPrefix = None,
      disableNotNull = btDisableNotNull x,
      disableRelsTableUnique = (btDisableRelsTableUnique x = Some True),
      disableUnique = btDisableUnique x,
      fieldPrefix = None,
      forceLocalized = False,
      newTableName = btTableName x,
      parentTableName = btTableName x,
      relationsToBuild = 0,
      rootRelationsToBuild = Some (case rootRelations sh of None \<Rightarrow> 0 | Some m \<Rightarrow> 1),
      rootTableIDColType = (case btRootTableIDColType x of None \<Rightarrow> own | Some t \<Rightarrow> t),
      rootTableName = btRootTableName x,
      versions = btVersions x,
      withinLocalizedArrayOrBlock = (btWithinLocalizedArrayOrBlock x = Some True)\<rparr>"

definition builderState :: "env \<Rightarrow> adapter \<Rightarrow> shared \<Rightarrow> buildTableArgs \<Rightarrow> state" where
  "builderState env ad sh x =
     \<lparr>adapter = ad,
      columns = (map_of (baseColumns x))(''id'' \<mapsto> idColumn env),
      indexes = Map.empty,
      localesColumns = Map.empty,
      localesIndexes = Map.empty,
      relationships = (case rootRelationships sh of None \<Rightarrow> {} | Some s \<Rightarrow> s),
      uniqueRelationships = (case rootUniqueRelationships sh of None \<Rightarrow> {} | Some s \<Rightarrow> s),
      relMaps = (\<lambda>r. if r = 1 then (case rootRelations sh of None \<Rightarrow> Map.empty | Some m \<Rightarrow> m)
                     else Map.empty)\<rparr>"

definition registerTable :: "env \<Rightarrow> buildTableArgs \<Rightarrow> state \<Rightarrow> result \<Rightarrow> adapter" where
  "registerTable env x st r =
     (let ad = adapter st;
          ad1 = ad\<lparr>tables := (tables ad)(btTableName x \<mapsto>
                   \<lparr>tblColumns = columns st, tblIndexes = indexes st, tblExtra = baseExtraConfig x\<rparr>)\<rparr>
      in if hasLocalizedField r
         then ad1\<lparr>tables := (tables ad1)(btTableName x @ localesSuffix env \<mapsto>
                   \<lparr>tblColumns = (localesColumns st)
                      (''id'' \<mapsto> idColumn env,
                       ''_locale'' \<mapsto> notNull (mkColumn (PgEnumColumn ''enum__locales'') ''_locale''),
                       ''_parentID'' \<mapsto> notNull (parentIDColumnMap (parentIDColTypeOf (columns st)) ''_parent_id'')),
                     tblIndexes = localesIndexes st,
                     tblExtra = [(''_parentIdFk'',
                                  ExForeignKey (btTableName x @ localesSuffix env @ ''_parent_id_fk'')
                                    [''_parentID''] (btTableName x))]\<rparr>)\<rparr>
         else ad1)"

definition builderResult :: "state \<Rightarrow> result \<Rightarrow> buildResult" where
  "builderResult st r =
     \<lparr>subHasLocalizedManyNumberField = hasLocalizedManyNumberField r,
      subHasLocalizedManyTextField = hasLocalizedManyTextField r,
      subHasLocalizedRelationshipField = hasLocalizedRelationshipField r,
      subHasManyNumberField = hasManyNumberField r,
      subHasManyTextField = hasManyTextField r,
      subRelationsToBuild = relMaps st 0\<rparr>"

definition builderShared :: "shared \<Rightarrow> state \<Rightarrow> shared" where
  "builderShared sh st =
     \<lparr>rootRelationships = map_option (\<lambda>s. relationships st) (rootRelationships sh),
      rootUniqueRelationships = map_option (\<lambda>s. uniqueRelationships st) (rootUniqueRelationships sh),
      rootRelations = map_option (\<lambda>m. relMaps st 1) (rootRelations sh)\<rparr>"

primrec buildTableSpec :: "nat \<Rightarrow> env \<Rightarrow> adapter \<Rightarrow> shared \<Rightarrow> buildTableArgs \<Rightarrow> error + (adapter \<times> shared \<times> buildResult)" where
  "buildTableSpec 0 env ad sh x = Inl NestingLimit"
| "buildTableSpec (Suc k) env ad sh x =
     (if tables ad (btTableName x) \<noteq> None then Inr (ad, sh, noFlags)
      else
        (case traverseFields (env\<lparr>buildTable := buildTableSpec k env\<rparr>)
                (builderArgs sh x (parentIDColTypeOf (columns (builderState env ad sh x))))
                (btFields x) (builderState env ad sh x) of
           Inl e \<Rightarrow> Inl e
         | Inr (st, r) \<Rightarrow> Inr (registerTable env x st r, builderShared sh st, builderResult st r)))"

section \<open>An instance of the collaborators\<close>

text \<open>
  The examples run the walker with the helpers above and these readings of the other
  helpers: a field affects data when it has a name and is not of type \<^verbatim>\<open>ui\<close>, it is
  virtual when its \<^verbatim>\<open>virtual\<close> property is set, \<^verbatim>\<open>idToUUID\<close> renames a field
  \<^verbatim>\<open>id\<close> to \<^verbatim>\<open>_uuid\<close>, \<^verbatim>\<open>withDefault\<close> leaves a column without default value as
  it is, a field list has a locales table when one of its fields is localized, and
  \<^verbatim>\<open>to-snake-case\<close> returns a lower-case word as it is. There is one collection,
  \<^verbatim>\<open>users\<close>, whose id is a text field. Child tables nest at most three deep.
\<close>

definition plain :: "fieldType \<Rightarrow> string \<Rightarrow> field" where
  "plain ty n = MkField ty (Some n) False False False False False False False (Single []) [] [] [] []"

definition renamed :: "string \<Rightarrow> field \<Rightarrow> field" where
  "renamed n t =
     (case t of MkField ty m l hm u i r c v rt os fs bs ts \<Rightarrow>
        MkField ty (Some n) l hm u i r c v rt os fs bs ts)"

definition env0 :: env where
  "env0 =
     \<lparr>localization = True,
      collections = [''users'' \<mapsto> [plain TText ''id'', plain TText ''email'']],
      tableNameMap = [''users'' \<mapsto> ''users''],
      idType = ''serial'',
      localesSuffix = ''_locales'',
      production = False,
      toSnakeCase = (\<lambda>s. s),
      fieldAffectsData = (\<lambda>f. name f \<noteq> None \<and> ftype f \<noteq> TUI),
      fieldIsVirtual = virtual,
      createTableName = createTableNameSpec (\<lambda>s. s),
      buildIndexName = buildIndexNameSpec,
      validateExistingBlockIsIdentical = validateSpec,
      buildTable = (\<lambda>ad sh x. Inl NestingLimit),
      idToUUID = map (\<lambda>f. if name f = Some ''id'' then renamed ''_uuid'' f else f),
      withDefault = (\<lambda>c f. c),
      hasLocalesTable = list_ex localized\<rparr>"

definition env1 :: env where
  "env1 = env0\<lparr>buildTable := buildTableSpec (Suc (Suc (Suc 0))) env0\<rparr>"

definition args0 :: args where
  "args0 =
     \<lparr>columnPrefix = None, disableNotNull = False, disableRelsTableUnique = False,
      disableUnique = False, fieldPrefix = None, forceLocalized = False,
      newTableName = ''posts'', parentTableName = ''posts'',
      relationsToBuild = 0, rootRelationsToBuild = Some 0,
      rootTableIDColType = IDinteger, rootTableName = ''posts'',
      versions = False, withinLocalizedArrayOrBlock = False\<rparr>"

definition adapter0 :: adapter where
  "adapter0 =
     \<lparr>tables = Map.empty,
      enums = [''enum__locales'' \<mapsto> \<lparr>enumName = ''enum__locales'', enumValues = [''en'', ''de'']\<rparr>],
      relations = Map.empty, fieldConstraints = Map.empty, postgis = False\<rparr>"

definition state0 :: state where
  "state0 =
     \<lparr>adapter = adapter0,
      columns = [''id'' \<mapsto> mkColumn PgInteger ''id''],
      indexes = Map.empty, localesColumns = Map.empty, localesIndexes = Map.empty,
      relationships = {}, uniqueRelationships = {},
      relMaps = (\<lambda>r. Map.empty)\<rparr>"

text \<open>
  A block \<^verbatim>\<open>hero\<close> with two text fields, a blocks field that uses it, and a state
  whose registry already holds a table \<^verbatim>\<open>posts_blocks_hero\<close> built from a block
  \<^verbatim>\<open>hero\<close> that had the field \<^verbatim>\<open>title\<close> only.
\<close>

definition heroBlock :: block where
  "heroBlock = MkBlock ''hero'' [plain TText ''title'', plain TText ''subtitle'']"

definition layoutField :: field where
  "layoutField =
     MkField TBlocks (Some ''layout'') False False False False False False False (Single [])
       [] [] [heroBlock] []"

definition heroTable :: table where
  "heroTable =
     \<lparr>tblColumns =
        [''id'' \<mapsto> mkColumn PgInteger ''id'',
         ''_order'' \<mapsto> notNull (mkColumn PgInteger ''_order''),
         ''_parentID'' \<mapsto> notNull (mkColumn PgInteger ''_parent_id''),
         ''_path'' \<mapsto> notNull (mkColumn PgText ''_path''),
         ''title'' \<mapsto> mkColumn PgVarchar ''title''],
      tblIndexes = Map.empty, tblExtra = []\<rparr>"

definition stateHero :: state where
  "stateHero = state0\<lparr>adapter := adapter0\<lparr>tables := [''posts_blocks_hero'' \<mapsto> heroTable]\<rparr>\<rparr>"

text \<open>
  A block \<^verbatim>\<open>section\<close> that holds a blocks field of its own, and the arguments of a
  walk below a group \<^verbatim>\<open>aside\<close> of the same root table.
\<close>

definition sectionBlock :: block where
  "sectionBlock = MkBlock ''section'' [plain TText ''heading'', layoutField]"

definition pageField :: field where
  "pageField =
     MkField TBlocks (Some ''page'') False False False False False False False (Single [])
       [] [] [sectionBlock] []"

definition asideArgs :: args where
  "asideArgs = args0\<lparr>columnPrefix := Some ''aside_'', fieldPrefix := Some ''aside.'',
                     newTableName := ''posts_aside''\<rparr>"

text \<open>Two multi-valued text fields that ask for uniqueness, the first of them virtual.\<close>

definition virtualTags :: field where
  "virtualTags =
     MkField TText (Some ''tags'') False True True False False False True (Single []) [] [] [] []"

definition codesField :: field where
  "codesField =
     MkField TText (Some ''codes'') False True True False False False False (Single []) [] [] [] []"

section \<open>Properties\<close>

declare fieldBody.simps [simp del]

lemmas walker_defs =
  env0_def env1_def args0_def adapter0_def state0_def plain_def traverseFields_def
  fieldBody.simps prepare_def localsOf_def nestedWalk_def leafCase_def textCase_def
  numberCase_def scalarCase_def setTarget_def getTarget_def finalNotNull_def markNotNull_def
  mkColumnName_def mkFieldName_def targetsLocales_def wantsIndex_def isMulti_def
  orEmpty_def parentIDColTypeOf_def mkColumn_def initResult_def layoutArgs_def
  unnamedGroupArgs_def namedGroupArgs_def mergeLayout_def truthy_def
  relationshipCase_def relationshipOneCase_def relatedIDType_def parentIDColumnMap_def
  references_def notNull_def createFieldIndex_def setTargetIndex_def createIndex_def
  buildIndexNameSpec_def setRelation_def addConstraint_def addRelationships_def
  noteLocalizedRelationship_def Let_def
  blocksForEach.simps blockBody_def blockTableNameOf_def buildBlock_def checkBlock_def
  blockTableArgs_def arrayTableArgs_def selectTableArgs_def localeColumns_def localeColumn_def
  arrayCase_def selectCase_def selectManyCase_def setEnum_def setRelations_def sharedOf_def
  writeShared_def mergeSub_def mergeMany_def createTableNameSpec_def validateSpec_def
  blockColumnNames_def storedInColumn_def buildTableSpec.simps builderArgs_def builderState_def
  registerTable_def builderResult_def builderShared_def noFlags_def idColumn_def pointCase_def
  optionValueOf_def asTab_def heroBlock_def layoutField_def heroTable_def stateHero_def
  sectionBlock_def pageField_def asideArgs_def isLocalizedHere_def virtualTags_def
  codesField_def hasManyUnique_def

lemma fieldBody_id: "name f = Some ''id'' \<Longrightarrow> fieldBody env a p f st acc = Inr (st, acc)"
  by (simp add: fieldBody.simps)

lemma fieldBody_virtual: "fieldIsVirtual env f \<Longrightarrow> fieldBody env a p f st acc = Inr (st, acc)"
  by (simp add: fieldBody.simps)

text \<open>
  C8. A field whose name is exactly \<^verbatim>\<open>id\<close> is skipped without an error: the callback
  returns at once, so the adapter, the columns and indexes of both tables, the
  relationship sets, the relation maps and the flags are what they were, and the walk
  goes on with the siblings that follow.
\<close>

theorem id_field_skipped:
  assumes "name f = Some ''id''"
  shows "fieldBody env a p f st acc = Inr (st, acc)
       \<and> forEachField env a p (f # fs) st acc = forEachField env a p fs st acc
       \<and> traverseFields env a (f # fs) st = traverseFields env a fs st"
  using assms by (simp add: fieldBody_id traverseFields_def)

theorem id_field_skipped_witness:
  "name (plain TText ''id'') = Some ''id''
   \<and> fieldBody env1 args0 IDinteger (plain TText ''id'') state0 initResult = Inr (state0, initResult)
   \<and> (case traverseFields env1 args0 [plain TText ''id'', plain TText ''title''] state0 of
        Inr (st, r) \<Rightarrow> columns st ''title'' = Some (mkColumn PgVarchar ''title'')
                      \<and> columns st ''id'' = Some (mkColumn PgInteger ''id'')
                      \<and> indexes st ''posts_id_idx'' = None
      | Inl e \<Rightarrow> False)"
  using id_field_skipped [where f = "plain TText ''id''" and env = env1 and a = args0
      and p = IDinteger and st = state0 and acc = initResult and fs = "[plain TText ''title'']"]
  by (simp add: walker_defs)

text \<open>
  C9. A virtual field (\<^verbatim>\<open>fieldIsVirtual(field)\<close> holds) is skipped: the callback
  returns the state and the flags it was given, whatever the field's type, children or
  modifiers are, and the walk goes on with the siblings that follow.
\<close>

theorem virtual_field_skipped:
  assumes "fieldIsVirtual env f"
  shows "fieldBody env a p f st acc = Inr (st, acc)
       \<and> forEachField env a p (f # fs) st acc = forEachField env a p fs st acc
       \<and> traverseFields env a (f # fs) st = traverseFields env a fs st"
  using assms by (simp add: fieldBody_virtual traverseFields_def)

theorem virtual_field_skipped_witness:
  "fieldIsVirtual env1
     (MkField TText (Some ''slugline'') True False True True True False True (Single []) [] [] [] [])
   \<and> fieldBody env1 args0 IDinteger
        (MkField TText (Some ''slugline'') True False True True True False True (Single []) [] [] [] [])
        state0 initResult = Inr (state0, initResult)
   \<and> (case traverseFields env1 args0
            [MkField TText (Some ''slugline'') True False True True True False True (Single []) [] [] [] [],
             plain TText ''title''] state0 of
        Inr (st, r) \<Rightarrow> columns st ''title'' = Some (mkColumn PgVarchar ''title'')
                      \<and> columns st ''slugline'' = None \<and> localesColumns st ''slugline'' = None
                      \<and> \<not> hasLocalizedField r
      | Inl e \<Rightarrow> False)"
  using virtual_field_skipped [where env = env1 and a = args0 and p = IDinteger and st = state0
      and acc = initResult and fs = "[plain TText ''title'']"
      and f = "MkField TText (Some ''slugline'') True False True True True False True (Single []) [] [] [] []"]
  by (simp add: walker_defs)

subsection \<open>Fields that open no nested walk\<close>

lemma nestedWalk_leaf:
  "ftype f \<noteq> TCollapsible \<Longrightarrow> ftype f \<noteq> TRow \<Longrightarrow> ftype f \<noteq> TGroup \<Longrightarrow> ftype f \<noteq> TTab
   \<Longrightarrow> ftype f \<noteq> TTabs \<Longrightarrow> nestedWalk a loc f = None"
  by (simp add: nestedWalk_def)

text \<open>The callback on a field that is walked, has a name and opens no nested walk.\<close>

lemma fieldBody_leaf:
  assumes "name f = Some n" "n \<noteq> ''id''" "\<not> fieldIsVirtual env f" "fieldAffectsData env f"
    and "ftype f \<noteq> TCollapsible" "ftype f \<noteq> TRow" "ftype f \<noteq> TGroup" "ftype f \<noteq> TTab" "ftype f \<noteq> TTabs"
  shows "fieldBody env a p f st acc =
     (case leafCase env a p (localsOf env a f n) f
                (if wantsIndex f then createFieldIndex env a f n (localsOf env a f n) st else st)
                (if targetsLocales env a f then acc\<lparr>hasLocalizedField := True\<rparr> else acc) of
           Inl e \<Rightarrow> Inl e
         | Inr (st1, acc1) \<Rightarrow> Inr (finalNotNull a (localsOf env a f n) f st1, acc1))"
  using assms by (simp add: fieldBody.simps prepare_def nestedWalk_leaf split del: if_split)

lemma finalNotNull_frame [simp]:
  "indexes (finalNotNull a loc f st) = indexes st"
  "localesIndexes (finalNotNull a loc f st) = localesIndexes st"
  "adapter (finalNotNull a loc f st) = adapter st"
  "relMaps (finalNotNull a loc f st) = relMaps st"
  "relationships (finalNotNull a loc f st) = relationships st"
  "uniqueRelationships (finalNotNull a loc f st) = uniqueRelationships st"
  by (simp_all add: finalNotNull_def markNotNull_def setTarget_def split: option.splits)

lemma finalNotNull_other:
  "targetIsLocales loc \<Longrightarrow> columns (finalNotNull a loc f st) = columns st"
  "\<not> targetIsLocales loc \<Longrightarrow> localesColumns (finalNotNull a loc f st) = localesColumns st"
  by (simp_all add: finalNotNull_def markNotNull_def setTarget_def split: option.splits)

lemma finalNotNull_target:
  "getTarget loc (finalNotNull a loc f st) k \<noteq> None \<longleftrightarrow> getTarget loc st k \<noteq> None"
  by (simp add: finalNotNull_def markNotNull_def setTarget_def getTarget_def split: option.splits)

text \<open>
  What \<^verbatim>\<open>notNull()\<close> leaves alone in a column.
\<close>

lemma finalNotNull_column:
  "getTarget loc st k = Some c \<Longrightarrow>
   \<exists>c'. getTarget loc (finalNotNull a loc f st) k = Some c' \<and> colKind c' = colKind c
        \<and> colName c' = colName c \<and> colReferences c' = colReferences c"
  by (cases "targetIsLocales loc")
     (auto simp: finalNotNull_def markNotNull_def setTarget_def getTarget_def notNull_def)

lemma createFieldIndex_frame [simp]:
  "columns (createFieldIndex env a f n loc st) = columns st"
  "localesColumns (createFieldIndex env a f n loc st) = localesColumns st"
  "relMaps (createFieldIndex env a f n loc st) = relMaps st"
  "tables (adapter (createFieldIndex env a f n loc st)) = tables (adapter st)"
  "enums (adapter (createFieldIndex env a f n loc st)) = enums (adapter st)"
  by (simp_all add: createFieldIndex_def Let_def setTargetIndex_def addConstraint_def)

lemma relationshipOneCase_result:
  "relationshipOneCase env a loc f r st = Inr st' \<Longrightarrow>
     collections env r \<noteq> None \<and> indexes st' = indexes st \<and> localesIndexes st' = localesIndexes st
     \<and> getTarget loc st' (fieldName loc) \<noteq> None"
  by (auto simp: relationshipOneCase_def Let_def markNotNull_def setTarget_def getTarget_def setRelation_def
        split: option.splits if_splits)

lemma relationshipOneCase_fails:
  "relationshipOneCase env a loc f r st = Inl e \<Longrightarrow> collections env r = None"
  by (auto simp: relationshipOneCase_def Let_def split: option.splits)

lemma relationshipOneCase_column:
  "collections env r = Some cfg \<Longrightarrow>
   \<exists>st' c. relationshipOneCase env a loc f r st = Inr st'
     \<and> getTarget loc st' (fieldName loc) = Some c
     \<and> colKind c = colKind (parentIDColumnMap (relatedIDType env cfg) [])
     \<and> colName c = columnName loc @ ''_id''
     \<and> colReferences c = Some (tableNameMap env (toSnakeCase env r))"
  by (auto simp: relationshipOneCase_def Let_def markNotNull_def setTarget_def getTarget_def
        setRelation_def references_def notNull_def parentIDColumnMap_def mkColumn_def)

lemma leafCase_relationshipOne:
  assumes "ftype f = TRelationship \<or> ftype f = TUpload" "relationTo f = Single r" "\<not> hasMany f"
  shows "leafCase env a p loc f st acc = map_sum id (\<lambda>st1. (st1, acc)) (relationshipOneCase env a loc f r st)"
  using assms by (auto simp: leafCase_def relationshipCase_def)

text \<open>The callback on a single-target, single-valued relationship or upload field.\<close>

lemma fieldBody_relationshipOne:
  assumes "ftype f = TRelationship \<or> ftype f = TUpload"
    and "relationTo f = Single r" and "\<not> hasMany f"
    and "name f = Some n" and "n \<noteq> ''id''" and "\<not> fieldIsVirtual env f" and "fieldAffectsData env f"
  shows "fieldBody env a p f st acc =
     (case relationshipOneCase env a (localsOf env a f n) f r
             (createFieldIndex env a f n (localsOf env a f n) st) of
        Inl e \<Rightarrow> Inl e
      | Inr st1 \<Rightarrow> Inr (finalNotNull a (localsOf env a f n) f st1,
                        if targetsLocales env a f then acc\<lparr>hasLocalizedField := True\<rparr> else acc))"
proof -
  have w: "wantsIndex f" using assms by (auto simp: wantsIndex_def isMulti_def)
  have types: "ftype f \<noteq> TCollapsible" "ftype f \<noteq> TRow" "ftype f \<noteq> TGroup" "ftype f \<noteq> TTab" "ftype f \<noteq> TTabs"
    using assms(1) by auto
  show ?thesis
    unfolding fieldBody_leaf [OF assms(4-7) types]
    using w assms(1-3)
    by (simp add: leafCase_relationshipOne split: sum.splits)
qed

lemma createFieldIndex_index:
  "(if targetIsLocales loc then localesIndexes (createFieldIndex env a f n loc st)
    else indexes (createFieldIndex env a f n loc st))
     (buildIndexName env (newTableName a @ ''_'' @ columnName loc))
   = Some \<lparr>idxOn = (if localized f then [fieldName loc, ''_locale''] else [fieldName loc]),
           idxName = buildIndexName env (newTableName a @ ''_'' @ columnName loc),
           idxUnique = (\<not> disableUnique a \<and> unique f)\<rparr>"
  by (simp add: createFieldIndex_def Let_def setTargetIndex_def createIndex_def)

lemma localsOf_simps [simp]:
  "columnName (localsOf env a f n) = mkColumnName env a n"
  "fieldName (localsOf env a f n) = mkFieldName a n"
  "targetIsLocales (localsOf env a f n) = targetsLocales env a f"
  by (simp_all add: localsOf_def)

text \<open>
  C10. A single-target, single-valued relationship or upload field that is walked gets an
  index even when it asks for neither \<^verbatim>\<open>unique\<close> nor \<^verbatim>\<open>index\<close>. The callback
  fails only when the related collection does not exist; otherwise the index stands in
  the index set of the table that holds the column (the locales table exactly when the
  column goes there), under the name \<^verbatim>\<open>buildIndexName\<close> gives, and it is unique exactly
  when the field asks for \<^verbatim>\<open>unique\<close> and \<^verbatim>\<open>disableUnique\<close> is off.
\<close>

theorem relationship_index_always:
  assumes "ftype f = TRelationship \<or> ftype f = TUpload"
    and "relationTo f = Single r" and "\<not> hasMany f"
    and "name f = Some n" and "n \<noteq> ''id''" and "\<not> fieldIsVirtual env f" and "fieldAffectsData env f"
  shows "case fieldBody env a p f st acc of
           Inl e \<Rightarrow> collections env r = None
         | Inr (st', acc') \<Rightarrow>
             collections env r \<noteq> None
             \<and> (if targetsLocales env a f then localesIndexes st' else indexes st')
                 (buildIndexName env (newTableName a @ ''_'' @ mkColumnName env a n))
               = Some \<lparr>idxOn = (if localized f then [mkFieldName a n, ''_locale''] else [mkFieldName a n]),
                       idxName = buildIndexName env (newTableName a @ ''_'' @ mkColumnName env a n),
                       idxUnique = (\<not> disableUnique a \<and> unique f)\<rparr>
             \<and> (if targetsLocales env a f then localesColumns st' else columns st') (mkFieldName a n) \<noteq> None"
proof -
  define loc where "loc = localsOf env a f n"
  define st0 where "st0 = createFieldIndex env a f n loc st"
  note fb = fieldBody_relationshipOne [OF assms, of a p st acc, folded loc_def, folded st0_def]
  note ix = createFieldIndex_index [of loc env a f n st, folded st0_def]
  show ?thesis
  proof (cases "relationshipOneCase env a loc f r st0")
    case (Inl e)
    then show ?thesis using fb relationshipOneCase_fails [OF Inl] by simp
  next
    case (Inr st1)
    from relationshipOneCase_result [OF Inr] ix finalNotNull_target [of loc a f st1 "fieldName loc"]
    show ?thesis using fb Inr
      by (auto simp: getTarget_def loc_def split: if_splits)
  qed
qed

theorem relationship_index_always_witness:
  "(case fieldBody env1 args0 IDinteger
           (MkField TRelationship (Some ''author'') False False False False False False False
              (Single ''users'') [] [] [] []) state0 initResult of
      Inl e \<Rightarrow> False
    | Inr (st', acc') \<Rightarrow>
        indexes st' ''posts_author_idx''
          = Some \<lparr>idxOn = [''author''], idxName = ''posts_author_idx'', idxUnique = False\<rparr>
        \<and> columns st' ''author'' \<noteq> None
        \<and> localesIndexes st' ''posts_author_idx'' = None)"
  using relationship_index_always [where env = env1 and a = args0 and p = IDinteger
      and st = state0 and acc = initResult and r = "''users''" and n = "''author''"
      and f = "MkField TRelationship (Some ''author'') False False False False False False False
              (Single ''users'') [] [] [] []"]
  by (simp add: walker_defs)

text \<open>The relationship case never reads \<^verbatim>\<open>rootTableIDColType\<close>.\<close>

lemma rootType_irrelevant:
  "localsOf env (a\<lparr>rootTableIDColType := t\<rparr>) f n = localsOf env a f n"
  "targetsLocales env (a\<lparr>rootTableIDColType := t\<rparr>) f = targetsLocales env a f"
  "createFieldIndex env (a\<lparr>rootTableIDColType := t\<rparr>) f n loc st = createFieldIndex env a f n loc st"
  "relationshipOneCase env (a\<lparr>rootTableIDColType := t\<rparr>) loc f r st = relationshipOneCase env a loc f r st"
  "finalNotNull (a\<lparr>rootTableIDColType := t\<rparr>) loc f st = finalNotNull a loc f st"
  by (simp_all add: localsOf_def mkColumnName_def mkFieldName_def targetsLocales_def
        createFieldIndex_def relationshipOneCase_def finalNotNull_def Let_def
      cong: if_cong option.case_cong)

text \<open>
  C7. The foreign-key column of a single-target, single-valued relationship or upload
  field that is walked is typed after the related collection: \<^verbatim>\<open>varchar\<close> when that
  collection declares a text field \<^verbatim>\<open>id\<close>, \<^verbatim>\<open>numeric\<close> when it declares a number
  field \<^verbatim>\<open>id\<close>, and otherwise \<^verbatim>\<open>uuid\<close> or \<^verbatim>\<open>integer\<close> after the adapter's id
  type. The column is named \<^verbatim>\<open>columnName_id\<close> and references the id of the table that
  \<^verbatim>\<open>tableNameMap\<close> gives for the related collection. The id type of the table being
  built and the id type of the root table play no part: the callback returns the same
  for every value of either.
\<close>

theorem relationship_column_type:
  assumes "ftype f = TRelationship \<or> ftype f = TUpload"
    and "relationTo f = Single r" and "\<not> hasMany f"
    and "name f = Some n" and "n \<noteq> ''id''" and "\<not> fieldIsVirtual env f" and "fieldAffectsData env f"
    and "collections env r = Some cfg"
  shows "\<exists>st' acc' c.
           fieldBody env a p f st acc = Inr (st', acc')
         \<and> (if targetsLocales env a f then localesColumns st' else columns st') (mkFieldName a n) = Some c
         \<and> colKind c =
             (case find (\<lambda>g. fieldAffectsData env g \<and> name g = Some ''id'') cfg of
                None \<Rightarrow> (if idType env = ''uuid'' then PgUUID else PgInteger)
              | Some g \<Rightarrow>
                  (if ftype g = TText then PgVarchar
                   else if ftype g = TNumber then PgNumeric
                   else if idType env = ''uuid'' then PgUUID else PgInteger))
         \<and> colName c = mkColumnName env a n @ ''_id''
         \<and> colReferences c = Some (tableNameMap env (toSnakeCase env r))
         \<and> (\<forall>p' t. fieldBody env (a\<lparr>rootTableIDColType := t\<rparr>) p' f st acc = Inr (st', acc'))"
proof -
  define loc where "loc = localsOf env a f n"
  define st0 where "st0 = createFieldIndex env a f n loc st"
  note fb = fieldBody_relationshipOne [OF assms(1-7), of a p st acc, folded loc_def, folded st0_def]
  from relationshipOneCase_column [OF assms(8), of a loc f st0]
  obtain st1 c where one: "relationshipOneCase env a loc f r st0 = Inr st1"
    and c: "getTarget loc st1 (fieldName loc) = Some c"
      "colKind c = colKind (parentIDColumnMap (relatedIDType env cfg) [])"
      "colName c = columnName loc @ ''_id''"
      "colReferences c = Some (tableNameMap env (toSnakeCase env r))"
    by blast
  from finalNotNull_column [OF c(1), of a f]
  obtain c' where c': "getTarget loc (finalNotNull a loc f st1) (fieldName loc) = Some c'"
      "colKind c' = colKind c" "colName c' = colName c" "colReferences c' = colReferences c"
    by blast
  have kind: "colKind (parentIDColumnMap (relatedIDType env cfg) []) =
             (case find (\<lambda>g. fieldAffectsData env g \<and> name g = Some ''id'') cfg of
                None \<Rightarrow> (if idType env = ''uuid'' then PgUUID else PgInteger)
              | Some g \<Rightarrow>
                  (if ftype g = TText then PgVarchar
                   else if ftype g = TNumber then PgNumeric
                   else if idType env = ''uuid'' then PgUUID else PgInteger))"
    by (simp add: relatedIDType_def parentIDColumnMap_def mkColumn_def split: option.splits)
  have indep: "fieldBody env (a\<lparr>rootTableIDColType := t\<rparr>) p' f st acc = fieldBody env a p f st acc" for p' t
    unfolding fieldBody_relationshipOne [OF assms(1-7)]
    by (simp add: rootType_irrelevant cong: if_cong sum.case_cong)
  show ?thesis
    using fb one c' c(2-4) kind indep
    by (auto simp: getTarget_def loc_def split: if_splits)
qed


theorem relationship_column_type_witness:
  "(case fieldBody env1 args0 IDinteger
           (MkField TRelationship (Some ''author'') False False False False False False False
              (Single ''users'') [] [] [] []) state0 initResult of
      Inl e \<Rightarrow> False
    | Inr (st', acc') \<Rightarrow>
        columns st' ''author''
          = Some \<lparr>colKind = PgVarchar, colName = ''author_id'', colNotNull = False,
                  colReferences = Some (Some ''users'')\<rparr>
        \<and> parentIDColTypeOf (columns state0) = IDinteger \<and> rootTableIDColType args0 = IDinteger)"
  using relationship_column_type [where env = env1 and a = args0 and p = IDinteger
      and st = state0 and acc = initResult and r = "''users''" and n = "''author''"
      and cfg = "[plain TText ''id'', plain TText ''email'']"
      and f = "MkField TRelationship (Some ''author'') False False False False False False False
              (Single ''users'') [] [] [] []"]
  by (simp add: walker_defs)

lemma leafCase_stored:
  assumes "storedInColumn f" and "leafCase env a p loc f st acc = Inr (st', acc')"
  shows "getTarget loc st' (fieldName loc) \<noteq> None
       \<and> (targetIsLocales loc \<longrightarrow> columns st' = columns st)
       \<and> (\<not> targetIsLocales loc \<longrightarrow> localesColumns st' = localesColumns st)"
  using assms
  by (cases "ftype f"; cases "relationTo f"; cases "targetIsLocales loc")
     (auto simp: storedInColumn_def leafCase_def scalarCase_def pointCase_def numberCase_def
        textCase_def selectCase_def setEnum_def relationshipCase_def relationshipOneCase_def
        setTarget_def getTarget_def markNotNull_def setRelation_def Let_def isMulti_def
      split: sum.splits option.splits if_splits)

text \<open>
  C3. A localized field that is walked and stored in a column: with localization enabled
  the callback puts the column into the locales table's column set and leaves the base
  table's column set as it was; with localization disabled it puts the column into the
  base table's column set and leaves that of the locales table as it was. This holds for
  every such field, whatever the arguments and the state are when the walk reaches it.
\<close>

theorem localized_column_routing:
  assumes "localized f" and "storedInColumn f"
    and "name f = Some n" and "n \<noteq> ''id''" and "\<not> fieldIsVirtual env f" and "fieldAffectsData env f"
    and "fieldBody env a p f st acc = Inr (st', acc')"
  shows "(localization env \<longrightarrow>
            localesColumns st' (mkFieldName a n) \<noteq> None \<and> columns st' = columns st)
       \<and> (\<not> localization env \<longrightarrow>
            columns st' (mkFieldName a n) \<noteq> None \<and> localesColumns st' = localesColumns st)"
proof -
  define loc where "loc = localsOf env a f n"
  define st0 where "st0 = (if wantsIndex f then createFieldIndex env a f n loc st else st)"
  define acc0 where "acc0 = (if targetsLocales env a f then acc\<lparr>hasLocalizedField := True\<rparr> else acc)"
  have types: "ftype f \<noteq> TCollapsible" "ftype f \<noteq> TRow" "ftype f \<noteq> TGroup" "ftype f \<noteq> TTab" "ftype f \<noteq> TTabs"
    using assms(2) by (auto simp: storedInColumn_def)
  have tl: "targetIsLocales loc = localization env"
    using assms(1,2) by (auto simp: loc_def targetsLocales_def storedInColumn_def)
  have fn: "fieldName loc = mkFieldName a n" by (simp add: loc_def)
  have frame0: "columns st0 = columns st" "localesColumns st0 = localesColumns st"
    by (simp_all add: st0_def)
  have fb: "fieldBody env a p f st acc =
      (case leafCase env a p loc f st0 acc0 of
         Inl e \<Rightarrow> Inl e
       | Inr (st1, acc1) \<Rightarrow> Inr (finalNotNull a loc f st1, acc1))"
    unfolding loc_def st0_def acc0_def by (rule fieldBody_leaf [OF assms(3-6) types])
  from assms(7) obtain st1 where leaf: "leafCase env a p loc f st0 acc0 = Inr (st1, acc')"
    and st': "st' = finalNotNull a loc f st1"
    unfolding fb by (auto split: sum.splits)
  from leafCase_stored [OF assms(2) leaf] finalNotNull_target [of loc a f st1 "fieldName loc"]
    finalNotNull_other [of loc a f st1]
  show ?thesis
    unfolding st' using tl fn frame0
    by (auto simp: getTarget_def)
qed


theorem localized_column_routing_witness:
  "(case fieldBody env1 args0 IDinteger
           (MkField TText (Some ''title'') True False False False False False False (Single []) [] [] [] [])
           state0 initResult of
      Inl e \<Rightarrow> False
    | Inr (st', acc') \<Rightarrow>
        localesColumns st' ''title'' = Some (mkColumn PgVarchar ''title'')
        \<and> columns st' ''title'' = None \<and> hasLocalizedField acc')
   \<and> (case fieldBody (env1\<lparr>localization := False\<rparr>) args0 IDinteger
           (MkField TText (Some ''title'') True False False False False False False (Single []) [] [] [] [])
           state0 initResult of
      Inl e \<Rightarrow> False
    | Inr (st', acc') \<Rightarrow>
        columns st' ''title'' = Some (mkColumn PgVarchar ''title'')
        \<and> localesColumns st' ''title'' = None \<and> \<not> hasLocalizedField acc')"
  using localized_column_routing [where env = env1 and a = args0 and p = IDinteger
      and st = state0 and acc = initResult and n = "''title''"
      and f = "MkField TText (Some ''title'') True False False False False False False (Single []) [] [] [] []"]
  by (simp add: walker_defs)

subsection \<open>Blocks\<close>

lemma setRelation_frame [simp]:
  "adapter (setRelation r k v st) = adapter st"
  "columns (setRelation r k v st) = columns st"
  "localesColumns (setRelation r k v st) = localesColumns st"
  "indexes (setRelation r k v st) = indexes st"
  "localesIndexes (setRelation r k v st) = localesIndexes st"
  "relMaps (setRelation r k v st) r k = Some v"
  by (simp_all add: setRelation_def)


lemma blockTableArgs_name [simp]: "btTableName (blockTableArgs env a f b n lc) = n"
  by (simp add: blockTableArgs_def)

lemma writeShared_frame [simp]:
  "adapter (writeShared a sh st) = adapter st"
  "columns (writeShared a sh st) = columns st"
  "localesColumns (writeShared a sh st) = localesColumns st"
  "indexes (writeShared a sh st) = indexes st"
  "localesIndexes (writeShared a sh st) = localesIndexes st"
  by (simp_all add: writeShared_def)

lemma setRelations_frame [simp]:
  "tables (adapter (setRelations k d st)) = tables (adapter st)"
  "enums (adapter (setRelations k d st)) = enums (adapter st)"
  "columns (setRelations k d st) = columns st"
  "localesColumns (setRelations k d st) = localesColumns st"
  "indexes (setRelations k d st) = indexes st"
  "localesIndexes (setRelations k d st) = localesIndexes st"
  "relMaps (setRelations k d st) = relMaps st"
  by (simp_all add: setRelations_def)














subsection \<open>Nested walks\<close>

lemma nestedWalk_fields: "nestedWalk a loc f = Some (a', fs) \<Longrightarrow> fs = nestedFields f"
  by (auto simp: nestedWalk_def nestedFields_def split: if_splits)

lemma prepare_result:
  assumes "prepare env a f st acc = Inr (loc, st0, acc0)"
  shows "tables (adapter st0) = tables (adapter st)" "columns st0 = columns st"
    "localesColumns st0 = localesColumns st" "relMaps st0 = relMaps st"
  using assms by (auto simp: prepare_def split: if_splits option.splits)

lemma setEnum_frame [simp]:
  "tables (adapter (setEnum k e st)) = tables (adapter st)"
  "columns (setEnum k e st) = columns st"
  "localesColumns (setEnum k e st) = localesColumns st"
  by (simp_all add: setEnum_def)

lemma setTarget_frame [simp]:
  "adapter (setTarget loc k c st) = adapter st"
  "relMaps (setTarget loc k c st) = relMaps st"
  by (simp_all add: setTarget_def)

lemma markNotNull_frame [simp]:
  "adapter (markNotNull loc k st) = adapter st"
  by (simp add: markNotNull_def split: option.splits)

lemma leafCase_tables:
  assumes "\<not> buildsTable f" and "leafCase env a p loc f st acc = Inr (st', acc')"
  shows "tables (adapter st') = tables (adapter st)"
  using assms
  by (cases "ftype f"; cases "relationTo f")
     (auto simp: buildsTable_def leafCase_def scalarCase_def pointCase_def numberCase_def
        textCase_def selectCase_def relationshipCase_def relationshipOneCase_def
        addRelationships_def Let_def
      split: sum.splits option.splits if_splits)

lemma tables_preserved:
  "(\<forall>g\<in>set (walked env fs). \<not> buildsTable g) \<Longrightarrow>
     forEachField env a p fs st acc = Inr (st', acc') \<Longrightarrow> tables (adapter st') = tables (adapter st)"
  "name f \<noteq> Some ''id'' \<Longrightarrow> \<not> fieldIsVirtual env f \<Longrightarrow> \<not> buildsTable f \<Longrightarrow>
     (\<forall>g\<in>set (walked env (nestedFields f)). \<not> buildsTable g) \<Longrightarrow>
     fieldBody env a p f st acc = Inr (st', acc') \<Longrightarrow> tables (adapter st') = tables (adapter st)"
proof (induction env a p fs st acc and env a p f st acc arbitrary: st' acc' and st' acc'
        rule: forEachField_fieldBody.induct)
  case (1 env a p st acc)
  then show ?case by simp
next
  case (2 env a p f fs st acc)
  from "2.prems"(2) obtain st1 acc1 where
    f: "fieldBody env a p f st acc = Inr (st1, acc1)"
    and fs: "forEachField env a p fs st1 acc1 = Inr (st', acc')"
    by (auto split: sum.splits)
  have rest: "\<forall>g\<in>set (walked env fs). \<not> buildsTable g"
    using "2.prems"(1) by simp
  have one: "tables (adapter st1) = tables (adapter st)"
  proof (cases "name f = Some ''id'' \<or> fieldIsVirtual env f")
    case True
    then show ?thesis using f by (auto simp: fieldBody_id fieldBody_virtual)
  next
    case False
    with "2.prems"(1) have "\<not> buildsTable f" "\<forall>g\<in>set (walked env (nestedFields f)). \<not> buildsTable g"
      by auto
    with False f show ?thesis by (intro "2.IH"(1)) auto
  qed
  from "2.IH"(2) [OF f refl rest fs] one show ?case by simp
next
  case (3 env a p f st acc)
  from "3.prems" obtain loc st0 acc0 where
    prep: "prepare env a f st acc = Inr (loc, st0, acc0)"
    by (auto simp: fieldBody.simps split: sum.splits)
  note t0 = prepare_result(1) [OF prep]
  show ?case
  proof (cases "nestedWalk a loc f")
    case None
    with "3.prems" prep obtain st1 where
      "leafCase env a p loc f st0 acc0 = Inr (st1, acc')" "st' = finalNotNull a loc f st1"
      by (auto simp: fieldBody.simps split: sum.splits)
    with leafCase_tables [OF "3.prems"(3)] t0 show ?thesis by simp
  next
    case (Some z)
    then obtain a' fs where z: "nestedWalk a loc f = Some (a', fs)" by (cases z) auto
    with "3.prems" prep obtain st1 r where
      run: "forEachField env a' (parentIDColTypeOf (columns st0)) fs st0 initResult = Inr (st1, r)"
      and st': "st' = finalNotNull a loc f st1"
      by (auto simp: fieldBody.simps split: sum.splits)
    have "\<forall>g\<in>set (walked env fs). \<not> buildsTable g"
      using "3.prems"(4) nestedWalk_fields [OF z] by simp
    from "3.IH" [OF "3.prems"(1,2) prep refl refl z refl this run] t0 st'
    show ?thesis by simp
  qed
qed


subsection \<open>Named groups and tabs\<close>

text \<open>The callback on a named group or tab that is walked.\<close>

lemma fieldBody_namedGroup:
  assumes "ftype f = TGroup \<or> ftype f = TTab"
    and "name f = Some n" and "n \<noteq> ''id''" and "\<not> fieldIsVirtual env f" and "fieldAffectsData env f"
  shows "fieldBody env a p f st acc =
     (case forEachField env (namedGroupArgs a (localsOf env a f n) f) (parentIDColTypeOf (columns st))
             (fieldsOf f)
             (if wantsIndex f then createFieldIndex env a f n (localsOf env a f n) st else st)
             initResult of
        Inl e \<Rightarrow> Inl e
      | Inr (st1, r) \<Rightarrow>
          Inr (finalNotNull a (localsOf env a f n) f st1,
               mergeLayout r (if targetsLocales env a f then acc\<lparr>hasLocalizedField := True\<rparr> else acc)))"
proof -
  have nw: "nestedWalk a loc f = Some (namedGroupArgs a loc f, fieldsOf f)" for loc
    using assms(1,2) by (auto simp: nestedWalk_def)
  have cols: "columns (if wantsIndex f then createFieldIndex env a f n (localsOf env a f n) st else st)
      = columns st"
    by simp
  show ?thesis
    using assms(2-5)
    by (simp add: fieldBody.simps prepare_def nw cols split del: if_split cong: sum.case_cong)
       (simp split: sum.splits)
qed

text \<open>
  C6. A named group or tab that is walked opens a nested walk over its children on the
  same state, that is on the column and index sets of the enclosing table and of its
  locales table. The nested walk has the column prefix \<^verbatim>\<open>columnName_\<close> and the field
  prefix \<^verbatim>\<open>fieldName.\<close> of the group: the column of a child named \<open>m\<close> is named by
  the group's column name, \<^verbatim>\<open>_\<close> and the snake-cased \<open>m\<close>, and is stored under the
  group's field name with \<^verbatim>\<open>.\<close> appended, the first dot turned into \<^verbatim>\<open>_\<close>,
  followed by \<open>m\<close>. The parent table name is unchanged. The group itself calls no Table Builder: when no walked field below it is
  an array, a blocks field or a multi-valued select, the table registry after the group
  is the one before.
\<close>

theorem named_group_flattens:
  assumes "ftype f = TGroup \<or> ftype f = TTab"
    and "name f = Some n" and "n \<noteq> ''id''" and "\<not> fieldIsVirtual env f" and "fieldAffectsData env f"
    and "fieldBody env a p f st acc = Inr (st', acc')"
  shows "\<exists>st1 r.
           forEachField env (namedGroupArgs a (localsOf env a f n) f) (parentIDColTypeOf (columns st))
             (fieldsOf f)
             (if wantsIndex f then createFieldIndex env a f n (localsOf env a f n) st else st)
             initResult = Inr (st1, r)
         \<and> st' = finalNotNull a (localsOf env a f n) f st1
         \<and> columnPrefix (namedGroupArgs a (localsOf env a f n) f) = Some (mkColumnName env a n @ ''_'')
         \<and> fieldPrefix (namedGroupArgs a (localsOf env a f n) f) = Some (mkFieldName a n @ ''.'')
         \<and> parentTableName (namedGroupArgs a (localsOf env a f n) f) = parentTableName a
         \<and> (\<forall>m. mkColumnName env (namedGroupArgs a (localsOf env a f n) f) m
                  = mkColumnName env a n @ ''_'' @ (if take 1 m = ''_'' then ''_'' else []) @ toSnakeCase env m
                \<and> mkFieldName (namedGroupArgs a (localsOf env a f n) f) m
                  = replaceDot (mkFieldName a n @ ''.'') @ m)
         \<and> ((\<forall>g\<in>set (walked env (fieldsOf f)). \<not> buildsTable g)
              \<longrightarrow> tables (adapter st') = tables (adapter st))"
proof -
  define a' where "a' = namedGroupArgs a (localsOf env a f n) f"
  define st0 where "st0 = (if wantsIndex f then createFieldIndex env a f n (localsOf env a f n) st else st)"
  from assms(6) obtain st1 r where
    run: "forEachField env a' (parentIDColTypeOf (columns st)) (fieldsOf f) st0 initResult = Inr (st1, r)"
    and st': "st' = finalNotNull a (localsOf env a f n) f st1"
    unfolding fieldBody_namedGroup [OF assms(1-5)] a'_def st0_def
    by (auto split: sum.splits)
  have t0: "tables (adapter st0) = tables (adapter st)"
    by (simp add: st0_def)
  have names: "mkColumnName env a' m
                  = mkColumnName env a n @ ''_'' @ (if take 1 m = ''_'' then ''_'' else []) @ toSnakeCase env m"
    "mkFieldName a' m = replaceDot (mkFieldName a n @ ''.'') @ m" for m
    by (simp_all add: a'_def namedGroupArgs_def mkColumnName_def mkFieldName_def orEmpty_def)
  have prefixes: "columnPrefix a' = Some (mkColumnName env a n @ ''_'')"
    "fieldPrefix a' = Some (mkFieldName a n @ ''.'')" "parentTableName a' = parentTableName a"
    by (simp_all add: a'_def namedGroupArgs_def)
  have "tables (adapter st') = tables (adapter st)"
    if "\<forall>g\<in>set (walked env (fieldsOf f)). \<not> buildsTable g"
    using tables_preserved(1) [OF that run] t0 st' by simp
  with run st' names prefixes show ?thesis
    unfolding a'_def st0_def by blast
qed

theorem named_group_flattens_witness:
  "(case traverseFields env1 args0
         [MkField TGroup (Some ''bio'') False False False False False False False (Single [])
            [] [plain TNumber ''age''] [] []] state0 of
      Inl e \<Rightarrow> False
    | Inr (st', r) \<Rightarrow>
        columns st' ''bio_age'' = Some (mkColumn PgNumeric ''bio_age'')
        \<and> columns st' ''age'' = None \<and> columns st' ''bio'' = None
        \<and> localesColumns st' ''bio_age'' = None
        \<and> tables (adapter st') = tables (adapter state0)
        \<and> relMaps st' = relMaps state0)"
proof -
  have ev: ?thesis
    by (simp add: walker_defs)
  have "\<exists>st' acc'. fieldBody env1 args0 IDinteger
         (MkField TGroup (Some ''bio'') False False False False False False False (Single [])
            [] [plain TNumber ''age''] [] []) state0 initResult = Inr (st', acc')"
    by (simp add: walker_defs)
  then obtain st' acc' where run: "fieldBody env1 args0 IDinteger
         (MkField TGroup (Some ''bio'') False False False False False False False (Single [])
            [] [plain TNumber ''age''] [] []) state0 initResult = Inr (st', acc')"
    by blast
  have hyp: "ftype (MkField TGroup (Some ''bio'') False False False False False False False (Single [])
            [] [plain TNumber ''age''] [] []) = TGroup
      \<or> ftype (MkField TGroup (Some ''bio'') False False False False False False False (Single [])
            [] [plain TNumber ''age''] [] []) = TTab"
    "name (MkField TGroup (Some ''bio'') False False False False False False False (Single [])
            [] [plain TNumber ''age''] [] []) = Some ''bio''"
    "''bio'' \<noteq> ''id''"
    "\<not> fieldIsVirtual env1 (MkField TGroup (Some ''bio'') False False False False False False False
            (Single []) [] [plain TNumber ''age''] [] [])"
    "fieldAffectsData env1 (MkField TGroup (Some ''bio'') False False False False False False False
            (Single []) [] [plain TNumber ''age''] [] [])"
    by (simp_all add: env1_def env0_def)
  show ?thesis
    using named_group_flattens [OF hyp run] by - (rule ev)
qed

subsection \<open>Uniqueness on multi-valued number and text fields\<close>























end
